theory Spec2Isabelle
  imports Complex_Main "HOL-Library.Word"
begin

unbundle bit_operations_syntax

section \<open>Data representation\<close>

text \<open>
  The codec of \<^verbatim>\<open>rtcm.cc\<close> works on two kinds of \<^verbatim>\<open>std::string\<close>:
  binary-digit strings (every character is \<^verbatim>\<open>'0'\<close> or \<^verbatim>\<open>'1'\<close>) and packed byte
  strings (the frames). A binary-digit string is a \<^typ>\<open>bool list\<close> here, \<^term>\<open>True\<close>
  being the character \<^verbatim>\<open>'1'\<close>, first character first; a byte string is a list of
  8-bit words. A finite \<^verbatim>\<open>double\<close> is the \<^typ>\<open>real\<close> number it denotes; every
  arithmetic operation of the source on doubles, and every decimal literal, is the exact
  result rounded to binary64 by \<open>fl64\<close> below. Exceptions of the standard library, reads
  through an invalid iterator and conversions that C++ leaves undefined are values of the
  type \<open>error\<close>.
\<close>

datatype error =
    OutOfRange            \<comment> \<open>\<^verbatim>\<open>std::out_of_range\<close> thrown by \<^verbatim>\<open>substr\<close>, \<^verbatim>\<open>assign\<close>, \<^verbatim>\<open>bitset::set\<close>, \<^verbatim>\<open>map::at\<close>\<close>
  | InvalidIterator       \<comment> \<open>dereference of \<^verbatim>\<open>end()\<close> of a container\<close>
  | UndefinedCast         \<comment> \<open>conversion of a double outside the range of the integer type\<close>

type_synonym bits = "bool list"
type_synonym byte = "8 word"

text \<open>\<^verbatim>\<open>s.substr(pos, n)\<close>: throws when \<^verbatim>\<open>pos > s.size()\<close>, otherwise the at most
  \<^verbatim>\<open>n\<close> characters from \<^verbatim>\<open>pos\<close> on.\<close>

definition substr :: "'a list \<Rightarrow> nat \<Rightarrow> nat \<Rightarrow> error + 'a list" where
  "substr s pos n = (if pos > length s then Inl OutOfRange else Inr (take n (drop pos s)))"

text \<open>\<^verbatim>\<open>strtoul(s, nullptr, 2)\<close> on a binary-digit string. Values of the integer types
  of the source are integers of HOL; where the source wraps around or truncates, the model
  says so.\<close>

definition bin_val :: "bits \<Rightarrow> int" where
  "bin_val s = foldl (\<lambda>a b. 2 * a + of_bool b) 0 s"

text \<open>\<^verbatim>\<open>std::bitset<n>(v).to_string()\<close>: the low \<open>n\<close> bits of \<open>v\<close> (two's complement for
  a negative \<open>v\<close>), most significant first.\<close>

definition bitset :: "nat \<Rightarrow> int \<Rightarrow> bits" where
  "bitset n v = rev (map (bit v) [0..<n])"

text \<open>\<^verbatim>\<open>std::bitset<n>(str)\<close> read back as a string: the first \<open>n\<close> characters of
  \<open>str\<close>, padded with zeros on the left when \<open>str\<close> is shorter.\<close>

definition bitset_of_string :: "nat \<Rightarrow> bits \<Rightarrow> bits" where
  "bitset_of_string n s = (let t = take n s in replicate (n - length t) False @ t)"

subsection \<open>Binary64 arithmetic\<close>

text \<open>Rounding of a real number to the nearest binary64 value, ties to the even
  significand: \<open>binade a\<close> is the exponent of the leading bit of \<open>a > 0\<close>, the spacing of
  the binary64 values around \<open>a\<close> is \<open>2 ^ (binade a - 52)\<close> and at least \<open>2 ^ - 1074\<close>, and
  the number is rounded to a multiple of that spacing. Infinities and NaN are not in the
  model: a result of magnitude \<open>2 ^ 1024\<close> or more stays a (large) real number.\<close>

definition round_half_even :: "real \<Rightarrow> int" where
  "round_half_even m =
     (let f = \<lfloor>m\<rfloor>; r = m - of_int f
      in if r < 1 / 2 then f else if 1 / 2 < r then f + 1 else if even f then f else f + 1)"

function bit_length :: "int \<Rightarrow> nat" where
  "bit_length n = (if n \<le> 0 then 0 else Suc (bit_length (n div 2)))"
  by auto
termination
  by (relation "measure nat") auto

definition pow2 :: "int \<Rightarrow> real" where
  "pow2 e = (if 0 \<le> e then 2 ^ nat e else 1 / 2 ^ nat (- e))"

definition binade :: "real \<Rightarrow> int" where
  "binade a =
     (if 1 \<le> a then int (bit_length \<lfloor>a\<rfloor>) - 1
      else let k = int (bit_length \<lfloor>1 / a\<rfloor>)
           in if 1 / a = pow2 (k - 1) then 1 - k else - k)"

definition fl64 :: "real \<Rightarrow> real" where
  "fl64 x =
     (if x = 0 then 0
      else let e = max (binade \<bar>x\<bar> - 52) (- 1074)
           in sgn x * of_int (round_half_even (\<bar>x\<bar> / pow2 e)) * pow2 e)"

text \<open>\<^verbatim>\<open>std::round\<close> of a double (halfway cases away from zero); the result is an
  integer-valued double, returned as the integer.\<close>

definition cpp_round :: "real \<Rightarrow> int" where
  "cpp_round x = (if 0 \<le> x then \<lfloor>x + 1 / 2\<rfloor> else - \<lfloor>- x + 1 / 2\<rfloor>)"

text \<open>The integer part of a double, as a cast to an integer type takes it: truncation
  towards zero.\<close>

definition cpp_trunc :: "real \<Rightarrow> int" where
  "cpp_trunc x = (if 0 \<le> x then \<lfloor>x\<rfloor> else - \<lfloor>- x\<rfloor>)"

text \<open>\<^verbatim>\<open>static_cast<int64_t>(x)\<close> of a double: the integer part when it lies in the range
  of \<^verbatim>\<open>int64_t\<close>, undefined otherwise.\<close>

definition cast_int64 :: "real \<Rightarrow> error + int" where
  "cast_int64 x =
     (let v = cpp_trunc x in if - (2 ^ 63) \<le> v \<and> v < 2 ^ 63 then Inr v else Inl UndefinedCast)"

section \<open>Bit and byte primitives\<close>

text \<open>\<^verbatim>\<open>Rtcm::bin_to_binary_data\<close>. A first partial group of \<open>length s mod 8\<close> digits
  gives the first byte; the loop \<^verbatim>\<open>for (i = start; i < s.length() - 1; i += 8)\<close> then
  packs two nibbles per byte. On the empty string \<^verbatim>\<open>s.length() - 1\<close> wraps around, the
  loop is entered and \<^verbatim>\<open>s_aux.assign(s, 4, 4)\<close> throws.\<close>

definition bin_to_binary_data :: "bits \<Rightarrow> error + byte list" where
  "bin_to_binary_data s =
     (if s = [] then Inl OutOfRange
      else
        let remainder = length s mod 8;
            first = (if remainder \<noteq> 0 then [word_of_int (bin_val (take remainder s))] else []);
            body = map (\<lambda>k. let i = remainder + 8 * k;
                                n = bin_val (take 4 (drop i s));
                                n2 = bin_val (take 4 (drop (i + 4) s))
                            in word_of_int (n * 16) + word_of_int n2)
                       [0..<(length s - remainder) div 8]
        in Inr (first @ body))"

text \<open>\<^verbatim>\<open>Rtcm::binary_data_to_bin\<close>: every byte as eight digits.\<close>

definition binary_data_to_bin :: "byte list \<Rightarrow> bits" where
  "binary_data_to_bin s = concat (map (\<lambda>val. bitset 8 (uint val)) s)"

text \<open>\<^verbatim>\<open>Rtcm::bin_to_uint\<close>.\<close>

definition bin_to_uint :: "bits \<Rightarrow> int" where
  "bin_to_uint s = (if length s > 32 then 0 else bin_val s)"

text \<open>\<^verbatim>\<open>Rtcm::bin_to_int\<close>: two's complement. \<^verbatim>\<open>s.substr(0, 1) != "0"\<close> also holds for
  the empty string, whose flipped bitset has the value 0.\<close>

definition bin_to_int :: "bits \<Rightarrow> int" where
  "bin_to_int s =
     (if length s > 32 then 0
      else if take 1 s \<noteq> [False] then - (bin_val (map Not s) + 1)
      else bin_val s)"

text \<open>\<^verbatim>\<open>Rtcm::bin_to_sint\<close>: sign and magnitude. \<^verbatim>\<open>s.substr(1)\<close> throws on the empty
  string.\<close>

definition bin_to_sint :: "bits \<Rightarrow> error + int" where
  "bin_to_sint s =
     (if length s > 32 then Inr 0
      else if take 1 s \<noteq> [False]
           then (let sign = 1
                 in case substr s 1 (length s) of
                      Inl e \<Rightarrow> Inl e
                    | Inr m \<Rightarrow> Inr (sign * bin_val m))
           else (let sign = - 1
                 in case substr s 1 (length s) of
                      Inl e \<Rightarrow> Inl e
                    | Inr m \<Rightarrow> Inr (sign * bin_val m)))"

text \<open>\<^verbatim>\<open>glo_sgn\<close>: the sign bit of the GLONASS fields, 1 for a negative value.\<close>

definition glo_sgn :: "real \<Rightarrow> int" where
  "glo_sgn val = (if val < 0 then 1 else if val = 0 then 0 else 0)"

text \<open>\<^verbatim>\<open>Rtcm::bin_to_double\<close>: two's complement of up to 64 digits read into an
  \<^verbatim>\<open>int64_t\<close>, which \<^verbatim>\<open>static_cast<double>\<close> then rounds to binary64.\<close>

definition bin_to_double :: "bits \<Rightarrow> real" where
  "bin_to_double s =
     (if length s > 64 then 0
      else if take 1 s \<noteq> [False] then fl64 (of_int (- (bin_val (map Not s) + 1)))
      else fl64 (of_int (bin_val s)))"

section \<open>Transport layer\<close>

text \<open>\<^verbatim>\<open>boost::crc_optimal<24, 0x1864CFB, 0, 0, false, false>\<close>: a 24-bit register,
  initially 0, the bits of every byte shifted in most significant first, no reflection and
  no final XOR. The leading term of the polynomial \<^verbatim>\<open>0x1864CFB\<close> lies outside the
  register, which is combined with the remaining 24 bits \<^verbatim>\<open>0x864CFB\<close>.\<close>

definition crc_step :: "24 word \<Rightarrow> bool \<Rightarrow> 24 word" where
  "crc_step r b = (if bit r 23 \<noteq> b then push_bit 1 r XOR 0x864CFB else push_bit 1 r)"

definition process_bytes :: "24 word \<Rightarrow> byte list \<Rightarrow> 24 word" where
  "process_bytes r bytes = foldl crc_step r (concat (map (\<lambda>val. bitset 8 (uint val)) bytes))"

text \<open>The bytes of \<^verbatim>\<open>boost::dynamic_bitset<uint8_t>(s)\<close> after \<^verbatim>\<open>to_block_range\<close> and
  \<^verbatim>\<open>std::reverse\<close>: the highest block, which holds the first \<open>length s mod 8\<close> digits when
  that is not 0, comes first.\<close>

definition block_bytes :: "bits \<Rightarrow> byte list" where
  "block_bytes s =
     (let remainder = length s mod 8;
          first = (if remainder \<noteq> 0 then [word_of_int (bin_val (take remainder s))] else []);
          body = map (\<lambda>k. word_of_int (bin_val (take 8 (drop (remainder + 8 * k) s))))
                     [0..<length s div 8]
      in first @ body)"

text \<open>\<^verbatim>\<open>Rtcm::add_CRC\<close>.\<close>

definition add_CRC :: "bits \<Rightarrow> error + byte list" where
  "add_CRC message_without_crc =
     (let bytes = block_bytes message_without_crc;
          crc_frame = bitset 24 (uint (process_bytes 0 bytes));
          complete_message = message_without_crc @ crc_frame
      in bin_to_binary_data complete_message)"

text \<open>\<^verbatim>\<open>Rtcm::check_CRC\<close>. In \<^verbatim>\<open>message_bin.substr(message_bin.length() - 24, 24)\<close> the
  unsigned subtraction wraps around on a message of fewer than three bytes, to a position
  beyond the end, and \<^verbatim>\<open>substr\<close> throws; on a longer message neither \<^verbatim>\<open>substr\<close> can
  throw.\<close>

definition check_CRC :: "byte list \<Rightarrow> error + bool" where
  "check_CRC message =
     (let message_bin = binary_data_to_bin message
      in if length message_bin < 24 then Inl OutOfRange
         else
           let crc = take 24 (drop (length message_bin - 24) message_bin);
               read_crc = bitset_of_string 24 crc;
               msg_without_crc = take (length message_bin - 24) (drop 0 message_bin);
               bytes = block_bytes msg_without_crc;
               computed_crc = bitset 24 (uint (process_bytes 0 bytes))
           in Inr (read_crc = computed_crc))"

text \<open>\<^verbatim>\<open>static_cast<float>\<close> of a \<^verbatim>\<open>uint32_t\<close>: exact below \<open>2 ^ 24\<close>, otherwise rounded
  to 24 significant bits, ties to even; \<open>k\<close> is the number of bits that do not fit.\<close>

definition float_of_uint32 :: "int \<Rightarrow> int" where
  "float_of_uint32 n =
     (if n < 2 ^ 24 then n
      else let k = (if n < 2 ^ 25 then 1 else if n < 2 ^ 26 then 2 else if n < 2 ^ 27 then 3
                    else if n < 2 ^ 28 then 4 else if n < 2 ^ 29 then 5 else if n < 2 ^ 30 then 6
                    else if n < 2 ^ 31 then 7 else 8 :: nat);
               q = n div 2 ^ k; r = n mod 2 ^ k; h = 2 ^ (k - 1)
           in (if h < r \<or> (r = h \<and> odd q) then q + 1 else q) * 2 ^ k)"

definition preamble :: bits where
  "preamble = [True, True, False, True, False, False, True, True]"

definition reserved_field :: bits where
  "reserved_field = [False, False, False, False, False, False]"

text \<open>\<^verbatim>\<open>Rtcm::build_message\<close>. The lengths are \<^verbatim>\<open>uint32_t\<close>: the assignment of
  \<^verbatim>\<open>data.length()\<close> and the subtraction \<^verbatim>\<open>8 * msg_length_bytes - msg_length_bits\<close> are
  modulo \<open>2 ^ 32\<close>.\<close>

definition build_message :: "bits \<Rightarrow> error + byte list" where
  "build_message data =
     (let msg_length_bits = int (length data) mod 2 ^ 32;
          msg_length_bytes = (float_of_uint32 msg_length_bits + 7) div 8;
          message_length = bitset 10 msg_length_bytes;
          zeros_to_fill = (8 * msg_length_bytes - msg_length_bits) mod 2 ^ 32;
          b = replicate (nat zeros_to_fill) False;
          msg_content = data @ b;
          msg_without_crc = preamble @ reserved_field @ message_length @ msg_content
      in add_CRC msg_without_crc)"

section \<open>Data fields of the station description (MT1005)\<close>

definition set_DF002 :: "int \<Rightarrow> bits" where
  "set_DF002 message_number = bitset 12 message_number"

definition set_DF003 :: "int \<Rightarrow> bits" where
  "set_DF003 ref_station_ID = bitset 12 ref_station_ID"

definition set_DF021 :: bits where
  "set_DF021 = (let itfr_year = 0 in bitset 6 itfr_year)"

definition set_DF022 :: "bool \<Rightarrow> bits" where
  "set_DF022 gps_indicator = bitset 1 (of_bool gps_indicator)"

definition set_DF023 :: "bool \<Rightarrow> bits" where
  "set_DF023 glonass_indicator = bitset 1 (of_bool glonass_indicator)"

definition set_DF024 :: "bool \<Rightarrow> bits" where
  "set_DF024 galileo_indicator = bitset 1 (of_bool galileo_indicator)"

text \<open>\<^verbatim>\<open>Rtcm::set_DF025\<close>, \<^verbatim>\<open>set_DF026\<close>, \<^verbatim>\<open>set_DF027\<close>: the binary64 product by 10000,
  \<^verbatim>\<open>std::round\<close>, the cast to \<^verbatim>\<open>int64_t\<close> and the low 38 bits.\<close>

definition set_DF025 :: "real \<Rightarrow> error + bits" where
  "set_DF025 antenna_ECEF_X_m =
     (case cast_int64 (of_int (cpp_round (fl64 (antenna_ECEF_X_m * 10000)))) of
        Inl e \<Rightarrow> Inl e
      | Inr ant_ref_x \<Rightarrow> Inr (bitset 38 ant_ref_x))"

definition set_DF026 :: "real \<Rightarrow> error + bits" where
  "set_DF026 antenna_ECEF_Y_m =
     (case cast_int64 (of_int (cpp_round (fl64 (antenna_ECEF_Y_m * 10000)))) of
        Inl e \<Rightarrow> Inl e
      | Inr ant_ref_y \<Rightarrow> Inr (bitset 38 ant_ref_y))"

definition set_DF027 :: "real \<Rightarrow> error + bits" where
  "set_DF027 antenna_ECEF_Z_m =
     (case cast_int64 (of_int (cpp_round (fl64 (antenna_ECEF_Z_m * 10000)))) of
        Inl e \<Rightarrow> Inl e
      | Inr ant_ref_z \<Rightarrow> Inr (bitset 38 ant_ref_z))"

text \<open>\<^verbatim>\<open>Rtcm::get_MT1005_test\<close> and \<^verbatim>\<open>Rtcm::print_MT1005_test\<close>. The three coordinates
  are the doubles that the decimal literals of the source denote. The setters run in the
  order of the source, so the first undefined conversion is the one reported.\<close>

definition get_MT1005_test :: "error + bits" where
  "get_MT1005_test =
     (let mt1005 = 1005;
          reference_station_id = 2003;
          ECEF_X = fl64 1114104.5999;
          ECEF_Y = fl64 (- 4850729.7108);
          ECEF_Z = fl64 3975521.4643;
          DF002 = set_DF002 mt1005;
          DF003 = set_DF003 reference_station_id;
          DF021 = set_DF021;
          DF022 = set_DF022 True;
          DF023 = set_DF023 False;
          DF024 = set_DF024 False;
          DF141 = [False];
          DF001 = [False];
          DF025 = set_DF025 ECEF_X;
          DF142 = [False];
          DF026 = set_DF026 ECEF_Y;
          DF364 = [False, False];
          DF027 = set_DF027 ECEF_Z
      in if isl DF025 then Inl (projl DF025)
         else if isl DF026 then Inl (projl DF026)
         else if isl DF027 then Inl (projl DF027)
         else
           let message = DF002 @ DF003 @ DF021 @ DF022 @ DF023 @ DF024 @ DF141 @ projr DF025 @
                         DF142 @ DF001 @ projr DF026 @ DF364 @ projr DF027
           in Inr (bitset_of_string 152 message))"

definition print_MT1005_test :: "error + byte list" where
  "print_MT1005_test =
     (let mt1005 = get_MT1005_test
      in if isl mt1005 then Inl (projl mt1005) else build_message (projr mt1005))"

text \<open>\<^verbatim>\<open>Rtcm::print_MT1005\<close>. The push onto the transport queue does not change the
  returned frame and is left out.\<close>

definition print_MT1005 ::
  "int \<Rightarrow> real \<Rightarrow> real \<Rightarrow> real \<Rightarrow> bool \<Rightarrow> bool \<Rightarrow> bool \<Rightarrow> bool \<Rightarrow> bool \<Rightarrow> int \<Rightarrow> error + byte list" where
  "print_MT1005 ref_id ecef_x ecef_y ecef_z gps glonass galileo non_physical single_oscillator
       quarter_cycle_indicator =
     (let msg_number = 1005;
          DF002 = set_DF002 msg_number;
          DF003 = set_DF003 ref_id;
          DF021 = set_DF021;
          DF022 = set_DF022 gps;
          DF023 = set_DF023 glonass;
          DF024 = set_DF024 galileo;
          DF141 = bitset 1 (of_bool non_physical);
          DF001 = [False];
          DF025 = set_DF025 ecef_x;
          DF142 = bitset 1 (of_bool single_oscillator);
          DF026 = set_DF026 ecef_y;
          DF364 = bitset 2 quarter_cycle_indicator;
          DF027 = set_DF027 ecef_z
      in if isl DF025 then Inl (projl DF025)
         else if isl DF026 then Inl (projl DF026)
         else if isl DF027 then Inl (projl DF027)
         else
           let data = DF002 @ DF003 @ DF021 @ DF022 @ DF023 @ DF024 @ DF141 @ projr DF025 @
                      DF142 @ DF001 @ projr DF026 @ DF364 @ projr DF027
           in build_message data)"

section \<open>Decoding: the common steps\<close>

text \<open>The decoders run through \<^verbatim>\<open>message_bin\<close> with an \<^verbatim>\<open>index\<close>. A statement pair
  \<^verbatim>\<open>x = conv(message_bin.substr(index, n)); index += n;\<close> is \<open>read_field message_bin n store\<close>,
  where \<open>store\<close> puts the converted digits into the output; \<^verbatim>\<open>index += n;\<close> alone is
  \<open>skip_bits n\<close>. A state is the index and the output, and \<open>run_readers\<close> runs the
  statements in order; an exception of \<^verbatim>\<open>substr\<close> or of a conversion ends the run. An
  integer of at most 32 bits converted to \<^verbatim>\<open>double\<close> is that integer exactly.\<close>

definition read_field ::
  "bits \<Rightarrow> nat \<Rightarrow> (bits \<Rightarrow> 'r \<Rightarrow> error + 'r) \<Rightarrow> nat \<times> 'r \<Rightarrow> error + nat \<times> 'r" where
  "read_field message_bin n store st =
     (case substr message_bin (fst st) n of
        Inl e \<Rightarrow> Inl e
      | Inr s \<Rightarrow> (case store s (snd st) of Inl e \<Rightarrow> Inl e | Inr r \<Rightarrow> Inr (fst st + n, r)))"

definition skip_bits :: "nat \<Rightarrow> nat \<times> 'r \<Rightarrow> error + nat \<times> 'r" where
  "skip_bits n st = Inr (fst st + n, snd st)"

fun run_readers :: "('s \<Rightarrow> error + 's) list \<Rightarrow> 's \<Rightarrow> error + 's" where
  "run_readers [] st = Inr st"
| "run_readers (f # fs) st = (case f st of Inl e \<Rightarrow> Inl e | Inr st' \<Rightarrow> run_readers fs st')"

definition assign :: "(bits \<Rightarrow> 'r \<Rightarrow> 'r) \<Rightarrow> bits \<Rightarrow> 'r \<Rightarrow> error + 'r" where
  "assign f s r = Inr (f s r)"

section \<open>Decoding the station description (MT1005)\<close>

text \<open>The output parameters of \<^verbatim>\<open>Rtcm::read_MT1005\<close>.\<close>

record mt1005_out =
  ref_id :: int
  ecef_x :: real
  ecef_y :: real
  ecef_z :: real
  gps :: bool
  glonass :: bool
  galileo :: bool

text \<open>\<^verbatim>\<open>Rtcm::read_MT1005\<close>: the status, and the output parameters after the call. The
  message number is compared as \<^verbatim>\<open>std::bitset<12>\<close> with \<^verbatim>\<open>DF002\<close>.\<close>

definition read_MT1005 :: "byte list \<Rightarrow> mt1005_out \<Rightarrow> error + int \<times> mt1005_out" where
  "read_MT1005 message out =
     (let message_bin = binary_data_to_bin message;
          crc_ok = check_CRC message
      in if isl crc_ok then Inl (projl crc_ok)
         else if \<not> projr crc_ok then Inr (1, out)
         else
           let preamble_length = 8;
               reserved_field_length = 6;
               index = preamble_length + reserved_field_length;
               len = substr message_bin index 10
           in if isl len then Inl (projl len)
              else
                let read_message_length = bin_to_uint (projr len);
                    index = index + 10
                in if read_message_length \<noteq> 19 then Inr (1, out)
                   else
                     let msg_number = 1005;
                         DF002 = set_DF002 msg_number;
                         num = substr message_bin index 12
                     in if isl num then Inl (projl num)
                        else
                          let read_msg_number = bitset_of_string 12 (projr num);
                              index = index + 12
                          in if DF002 \<noteq> read_msg_number then Inr (1, out)
                             else
                               let result = run_readers
                                     [read_field message_bin 12 (assign (\<lambda>s r. r\<lparr>ref_id := bin_to_uint s\<rparr>)),
                                      skip_bits 6,
                                      read_field message_bin 1 (assign (\<lambda>s r. r\<lparr>gps := (bin_to_uint s \<noteq> 0)\<rparr>)),
                                      read_field message_bin 1 (assign (\<lambda>s r. r\<lparr>glonass := (bin_to_uint s \<noteq> 0)\<rparr>)),
                                      read_field message_bin 1 (assign (\<lambda>s r. r\<lparr>galileo := (bin_to_uint s \<noteq> 0)\<rparr>)),
                                      skip_bits 1,
                                      read_field message_bin 38
                                        (assign (\<lambda>s r. r\<lparr>ecef_x := fl64 (bin_to_double s / 10000)\<rparr>)),
                                      skip_bits 1,
                                      skip_bits 1,
                                      read_field message_bin 38
                                        (assign (\<lambda>s r. r\<lparr>ecef_y := fl64 (bin_to_double s / 10000)\<rparr>)),
                                      skip_bits 2,
                                      read_field message_bin 38
                                        (assign (\<lambda>s r. r\<lparr>ecef_z := fl64 (bin_to_double s / 10000)\<rparr>))]
                                     (index, out)
                               in if isl result then Inl (projl result)
                                  else Inr (0, snd (projr result)))"

section \<open>Decoding the GPS ephemeris (MT1019)\<close>

text \<open>The fields of \<^verbatim>\<open>Gps_Ephemeris\<close> that \<^verbatim>\<open>Rtcm::read_MT1019\<close> assigns, with the type
  that the decoder casts to. The scale factors are constants of \<^verbatim>\<open>GPS_L1_CA.h\<close>, which is
  not among the sources: the decoder takes them as a parameter.\<close>

record gps_ephemeris =
  PRN :: int
  WN :: int
  SV_accuracy :: int
  code_on_L2 :: int
  idot :: real
  IODE_SF2 :: real
  IODE_SF3 :: real
  toc :: real
  af2 :: real
  af1 :: real
  af0 :: real
  IODC :: real
  Crs :: real
  delta_n :: real
  M_0 :: real
  Cuc :: real
  ecc :: real
  Cus :: real
  sqrtA :: real
  toe :: real
  Cic :: real
  OMEGA_0 :: real
  Cis :: real
  i_0 :: real
  Crc :: real
  omega :: real
  OMEGAdot :: real
  TGD :: real
  SV_health :: int
  L2_P_data_flag :: bool
  fit_interval_flag :: bool

record gps_lsb =
  I_DOT_LSB :: real
  T_OC_LSB :: real
  A_F2_LSB :: real
  A_F1_LSB :: real
  A_F0_LSB :: real
  C_RS_LSB :: real
  DELTA_N_LSB :: real
  M_0_LSB :: real
  C_UC_LSB :: real
  ECCENTRICITY_LSB :: real
  C_US_LSB :: real
  SQRT_A_LSB :: real
  T_OE_LSB :: real
  C_IC_LSB :: real
  OMEGA_0_LSB :: real
  C_IS_LSB :: real
  I_0_LSB :: real
  C_RC_LSB :: real
  OMEGA_LSB :: real
  OMEGA_DOT_LSB :: real
  T_GD_LSB :: real

text \<open>The assignments of \<^verbatim>\<open>Rtcm::read_MT1019\<close> after the three checks, in the order of the
  source; \<^verbatim>\<open>IODE_SF2\<close> and \<^verbatim>\<open>IODE_SF3\<close> are read from the same eight digits.\<close>

definition read_MT1019_fields ::
  "gps_lsb \<Rightarrow> bits \<Rightarrow> (nat \<times> gps_ephemeris \<Rightarrow> error + nat \<times> gps_ephemeris) list" where
  "read_MT1019_fields lsb message_bin =
     [
      read_field message_bin 6 (assign (\<lambda>s r. r\<lparr>PRN := bin_to_uint s\<rparr>)),
      read_field message_bin 10 (assign (\<lambda>s r. r\<lparr>WN := bin_to_uint s\<rparr>)),
      read_field message_bin 4 (assign (\<lambda>s r. r\<lparr>SV_accuracy := bin_to_uint s\<rparr>)),
      read_field message_bin 2 (assign (\<lambda>s r. r\<lparr>code_on_L2 := bin_to_uint s\<rparr>)),
      read_field message_bin 14 (assign (\<lambda>s r. r\<lparr>idot := fl64 (of_int (bin_to_int s) * I_DOT_LSB lsb)\<rparr>)),
      read_field message_bin 8 (assign (\<lambda>s r. r\<lparr>IODE_SF2 := of_int (bin_to_uint s), IODE_SF3 := of_int (bin_to_uint s)\<rparr>)),
      read_field message_bin 16 (assign (\<lambda>s r. r\<lparr>toc := fl64 (of_int (bin_to_uint s) * T_OC_LSB lsb)\<rparr>)),
      read_field message_bin 8 (assign (\<lambda>s r. r\<lparr>af2 := fl64 (of_int (bin_to_int s) * A_F2_LSB lsb)\<rparr>)),
      read_field message_bin 16 (assign (\<lambda>s r. r\<lparr>af1 := fl64 (of_int (bin_to_int s) * A_F1_LSB lsb)\<rparr>)),
      read_field message_bin 22 (assign (\<lambda>s r. r\<lparr>af0 := fl64 (of_int (bin_to_int s) * A_F0_LSB lsb)\<rparr>)),
      read_field message_bin 10 (assign (\<lambda>s r. r\<lparr>IODC := of_int (bin_to_uint s)\<rparr>)),
      read_field message_bin 16 (assign (\<lambda>s r. r\<lparr>Crs := fl64 (of_int (bin_to_int s) * C_RS_LSB lsb)\<rparr>)),
      read_field message_bin 16 (assign (\<lambda>s r. r\<lparr>delta_n := fl64 (of_int (bin_to_int s) * DELTA_N_LSB lsb)\<rparr>)),
      read_field message_bin 32 (assign (\<lambda>s r. r\<lparr>M_0 := fl64 (of_int (bin_to_int s) * M_0_LSB lsb)\<rparr>)),
      read_field message_bin 16 (assign (\<lambda>s r. r\<lparr>Cuc := fl64 (of_int (bin_to_int s) * C_UC_LSB lsb)\<rparr>)),
      read_field message_bin 32 (assign (\<lambda>s r. r\<lparr>ecc := fl64 (of_int (bin_to_uint s) * ECCENTRICITY_LSB lsb)\<rparr>)),
      read_field message_bin 16 (assign (\<lambda>s r. r\<lparr>Cus := fl64 (of_int (bin_to_int s) * C_US_LSB lsb)\<rparr>)),
      read_field message_bin 32 (assign (\<lambda>s r. r\<lparr>sqrtA := fl64 (of_int (bin_to_uint s) * SQRT_A_LSB lsb)\<rparr>)),
      read_field message_bin 16 (assign (\<lambda>s r. r\<lparr>toe := fl64 (of_int (bin_to_uint s) * T_OE_LSB lsb)\<rparr>)),
      read_field message_bin 16 (assign (\<lambda>s r. r\<lparr>Cic := fl64 (of_int (bin_to_int s) * C_IC_LSB lsb)\<rparr>)),
      read_field message_bin 32 (assign (\<lambda>s r. r\<lparr>OMEGA_0 := fl64 (of_int (bin_to_int s) * OMEGA_0_LSB lsb)\<rparr>)),
      read_field message_bin 16 (assign (\<lambda>s r. r\<lparr>Cis := fl64 (of_int (bin_to_int s) * C_IS_LSB lsb)\<rparr>)),
      read_field message_bin 32 (assign (\<lambda>s r. r\<lparr>i_0 := fl64 (of_int (bin_to_int s) * I_0_LSB lsb)\<rparr>)),
      read_field message_bin 16 (assign (\<lambda>s r. r\<lparr>Crc := fl64 (of_int (bin_to_int s) * C_RC_LSB lsb)\<rparr>)),
      read_field message_bin 32 (assign (\<lambda>s r. r\<lparr>omega := fl64 (of_int (bin_to_int s) * OMEGA_LSB lsb)\<rparr>)),
      read_field message_bin 24 (assign (\<lambda>s r. r\<lparr>OMEGAdot := fl64 (of_int (bin_to_int s) * OMEGA_DOT_LSB lsb)\<rparr>)),
      read_field message_bin 8 (assign (\<lambda>s r. r\<lparr>TGD := fl64 (of_int (bin_to_int s) * T_GD_LSB lsb)\<rparr>)),
      read_field message_bin 6 (assign (\<lambda>s r. r\<lparr>SV_health := bin_to_uint s\<rparr>)),
      read_field message_bin 1 (assign (\<lambda>s r. r\<lparr>L2_P_data_flag := (bin_to_uint s \<noteq> 0)\<rparr>)),
      read_field message_bin 1 (assign (\<lambda>s r. r\<lparr>fit_interval_flag := (bin_to_uint s \<noteq> 0)\<rparr>))]"

text \<open>\<^verbatim>\<open>Rtcm::read_MT1019\<close>: the status, and the ephemeris after the call.\<close>

definition read_MT1019 :: "gps_lsb \<Rightarrow> byte list \<Rightarrow> gps_ephemeris \<Rightarrow> error + int \<times> gps_ephemeris" where
  "read_MT1019 lsb message eph =
     (let message_bin = binary_data_to_bin message;
          crc_ok = check_CRC message
      in if isl crc_ok then Inl (projl crc_ok)
         else if \<not> projr crc_ok then Inr (1, eph)
         else
           let preamble_length = 8;
               reserved_field_length = 6;
               index = preamble_length + reserved_field_length;
               len = substr message_bin index 10
           in if isl len then Inl (projl len)
              else
                let read_message_length = bin_to_uint (projr len);
                    index = index + 10
                in if read_message_length \<noteq> 61 then Inr (1, eph)
                   else
                     let num = substr message_bin index 12
                     in if isl num then Inl (projl num)
                        else
                          let read_msg_number = bin_to_uint (projr num);
                              index = index + 12
                          in if 1019 \<noteq> read_msg_number then Inr (1, eph)
                             else
                               let result = run_readers (read_MT1019_fields lsb message_bin) (index, eph)
                               in if isl result then Inl (projl result)
                                  else Inr (0, snd (projr result)))"

section \<open>Decoding the Galileo ephemeris (MT1045)\<close>

text \<open>The fields of \<^verbatim>\<open>Galileo_Ephemeris\<close> that \<^verbatim>\<open>Rtcm::read_MT1045\<close> assigns, and the
  scale factors of the Galileo headers, a parameter as for GPS.\<close>

record galileo_ephemeris =
  PRN :: int
  WN :: real
  IOD_nav :: int
  SISA :: real
  idot :: real
  toc :: real
  af2 :: real
  af1 :: real
  af0 :: real
  Crs :: real
  delta_n :: real
  M_0 :: real
  Cuc :: real
  ecc :: real
  Cus :: real
  sqrtA :: real
  toe :: real
  Cic :: real
  OMEGA_0 :: real
  Cis :: real
  i_0 :: real
  Crc :: real
  omega :: real
  OMEGAdot :: real
  BGD_E1E5a :: real
  E5a_HS :: int
  E5a_DVS :: bool

record galileo_lsb =
  I_DOT_2_LSB :: real
  T0C_4_LSB :: real
  AF2_4_LSB :: real
  AF1_4_LSB :: real
  AF0_4_LSB :: real
  C_RS_3_LSB :: real
  DELTA_N_3_LSB :: real
  M0_1_LSB :: real
  C_UC_3_LSB :: real
  E_1_LSB :: real
  C_US_3_LSB :: real
  A_1_LSB_GAL :: real
  T0E_1_LSB :: real
  C_IC_4_LSB :: real
  OMEGA_0_2_LSB :: real
  C_IS_4_LSB :: real
  I_0_2_LSB :: real
  C_RC_3_LSB :: real
  OMEGA_2_LSB :: real
  OMEGA_DOT_3_LSB :: real

text \<open>The assignments of \<^verbatim>\<open>Rtcm::read_MT1045\<close> after the three checks; \<^verbatim>\<open>BGD_E1E5a\<close> is
  assigned without a scale factor.\<close>

definition read_MT1045_fields ::
  "galileo_lsb \<Rightarrow> bits \<Rightarrow> (nat \<times> galileo_ephemeris \<Rightarrow> error + nat \<times> galileo_ephemeris) list" where
  "read_MT1045_fields lsb message_bin =
     [
      read_field message_bin 6 (assign (\<lambda>s r. r\<lparr>PRN := bin_to_uint s\<rparr>)),
      read_field message_bin 12 (assign (\<lambda>s r. r\<lparr>WN := of_int (bin_to_uint s)\<rparr>)),
      read_field message_bin 10 (assign (\<lambda>s r. r\<lparr>IOD_nav := bin_to_uint s\<rparr>)),
      read_field message_bin 8 (assign (\<lambda>s r. r\<lparr>SISA := of_int (bin_to_uint s)\<rparr>)),
      read_field message_bin 14 (assign (\<lambda>s r. r\<lparr>idot := fl64 (of_int (bin_to_int s) * I_DOT_2_LSB lsb)\<rparr>)),
      read_field message_bin 14 (assign (\<lambda>s r. r\<lparr>toc := fl64 (of_int (bin_to_uint s) * T0C_4_LSB lsb)\<rparr>)),
      read_field message_bin 6 (assign (\<lambda>s r. r\<lparr>af2 := fl64 (of_int (bin_to_int s) * AF2_4_LSB lsb)\<rparr>)),
      read_field message_bin 21 (assign (\<lambda>s r. r\<lparr>af1 := fl64 (of_int (bin_to_int s) * AF1_4_LSB lsb)\<rparr>)),
      read_field message_bin 31 (assign (\<lambda>s r. r\<lparr>af0 := fl64 (of_int (bin_to_int s) * AF0_4_LSB lsb)\<rparr>)),
      read_field message_bin 16 (assign (\<lambda>s r. r\<lparr>Crs := fl64 (of_int (bin_to_int s) * C_RS_3_LSB lsb)\<rparr>)),
      read_field message_bin 16 (assign (\<lambda>s r. r\<lparr>delta_n := fl64 (of_int (bin_to_int s) * DELTA_N_3_LSB lsb)\<rparr>)),
      read_field message_bin 32 (assign (\<lambda>s r. r\<lparr>M_0 := fl64 (of_int (bin_to_int s) * M0_1_LSB lsb)\<rparr>)),
      read_field message_bin 16 (assign (\<lambda>s r. r\<lparr>Cuc := fl64 (of_int (bin_to_int s) * C_UC_3_LSB lsb)\<rparr>)),
      read_field message_bin 32 (assign (\<lambda>s r. r\<lparr>ecc := fl64 (of_int (bin_to_uint s) * E_1_LSB lsb)\<rparr>)),
      read_field message_bin 16 (assign (\<lambda>s r. r\<lparr>Cus := fl64 (of_int (bin_to_int s) * C_US_3_LSB lsb)\<rparr>)),
      read_field message_bin 32 (assign (\<lambda>s r. r\<lparr>sqrtA := fl64 (of_int (bin_to_uint s) * A_1_LSB_GAL lsb)\<rparr>)),
      read_field message_bin 14 (assign (\<lambda>s r. r\<lparr>toe := fl64 (of_int (bin_to_uint s) * T0E_1_LSB lsb)\<rparr>)),
      read_field message_bin 16 (assign (\<lambda>s r. r\<lparr>Cic := fl64 (of_int (bin_to_int s) * C_IC_4_LSB lsb)\<rparr>)),
      read_field message_bin 32 (assign (\<lambda>s r. r\<lparr>OMEGA_0 := fl64 (of_int (bin_to_int s) * OMEGA_0_2_LSB lsb)\<rparr>)),
      read_field message_bin 16 (assign (\<lambda>s r. r\<lparr>Cis := fl64 (of_int (bin_to_int s) * C_IS_4_LSB lsb)\<rparr>)),
      read_field message_bin 32 (assign (\<lambda>s r. r\<lparr>i_0 := fl64 (of_int (bin_to_int s) * I_0_2_LSB lsb)\<rparr>)),
      read_field message_bin 16 (assign (\<lambda>s r. r\<lparr>Crc := fl64 (of_int (bin_to_int s) * C_RC_3_LSB lsb)\<rparr>)),
      read_field message_bin 32 (assign (\<lambda>s r. r\<lparr>omega := fl64 (of_int (bin_to_int s) * OMEGA_2_LSB lsb)\<rparr>)),
      read_field message_bin 24 (assign (\<lambda>s r. r\<lparr>OMEGAdot := fl64 (of_int (bin_to_int s) * OMEGA_DOT_3_LSB lsb)\<rparr>)),
      read_field message_bin 10 (assign (\<lambda>s r. r\<lparr>BGD_E1E5a := of_int (bin_to_int s)\<rparr>)),
      read_field message_bin 2 (assign (\<lambda>s r. r\<lparr>E5a_HS := bin_to_uint s\<rparr>)),
      read_field message_bin 1 (assign (\<lambda>s r. r\<lparr>E5a_DVS := (bin_to_uint s \<noteq> 0)\<rparr>))]"

text \<open>\<^verbatim>\<open>Rtcm::read_MT1045\<close>: the status, and the ephemeris after the call.\<close>

definition read_MT1045 :: "galileo_lsb \<Rightarrow> byte list \<Rightarrow> galileo_ephemeris \<Rightarrow> error + int \<times> galileo_ephemeris" where
  "read_MT1045 lsb message eph =
     (let message_bin = binary_data_to_bin message;
          crc_ok = check_CRC message
      in if isl crc_ok then Inl (projl crc_ok)
         else if \<not> projr crc_ok then Inr (1, eph)
         else
           let preamble_length = 8;
               reserved_field_length = 6;
               index = preamble_length + reserved_field_length;
               len = substr message_bin index 10
           in if isl len then Inl (projl len)
              else
                let read_message_length = bin_to_uint (projr len);
                    index = index + 10
                in if read_message_length \<noteq> 62 then Inr (1, eph)
                   else
                     let num = substr message_bin index 12
                     in if isl num then Inl (projl num)
                        else
                          let read_msg_number = bin_to_uint (projr num);
                              index = index + 12
                          in if 1045 \<noteq> read_msg_number then Inr (1, eph)
                             else
                               let result = run_readers (read_MT1045_fields lsb message_bin) (index, eph)
                               in if isl result then Inl (projl result)
                                  else Inr (0, snd (projr result)))"

section \<open>The GLONASS ephemeris (MT1020)\<close>

text \<open>The fields of \<^verbatim>\<open>Glonass_Gnav_Ephemeris\<close> and \<^verbatim>\<open>Glonass_Gnav_Utc_Model\<close> that the
  encoder reads and the decoder assigns. The powers of two \<^verbatim>\<open>TWO_N11\<close> to \<^verbatim>\<open>TWO_N40\<close> are
  constants of a header that is not among the sources: encoder and decoder take them as
  a parameter.\<close>

record glonass_gnav_ephemeris =
  i_satellite_slot_number :: int
  i_satellite_freq_channel :: int
  d_P_1 :: real
  d_t_k :: real
  d_B_n :: real
  d_P_2 :: bool
  d_t_b :: real
  d_VXn :: real
  d_Xn :: real
  d_AXn :: real
  d_VYn :: real
  d_Yn :: real
  d_AYn :: real
  d_VZn :: real
  d_Zn :: real
  d_AZn :: real
  d_P_3 :: bool
  d_gamma_n :: real
  d_P :: real
  d_l3rd_n :: bool
  d_tau_n :: real
  d_Delta_tau_n :: real
  d_E_n :: real
  d_P_4 :: bool
  d_F_T :: real
  d_N_T :: real
  d_M :: real
  d_l5th_n :: bool

record glonass_gnav_utc_model =
  d_N_A :: real
  d_tau_c :: real
  d_N_4 :: real
  d_tau_gps :: real

record math_constants =
  TWO_N11 :: real
  TWO_N20 :: real
  TWO_N30 :: real
  TWO_N31 :: real
  TWO_N40 :: real

subsection \<open>Decoding\<close>

text \<open>Stores into the ephemeris and into the UTC model; the ones for sign-magnitude fields
  pass on the exception of \<^const>\<open>bin_to_sint\<close>.\<close>

definition in_eph ::
  "(bits \<Rightarrow> glonass_gnav_ephemeris \<Rightarrow> glonass_gnav_ephemeris) \<Rightarrow> bits
     \<Rightarrow> glonass_gnav_ephemeris \<times> glonass_gnav_utc_model
     \<Rightarrow> error + glonass_gnav_ephemeris \<times> glonass_gnav_utc_model" where
  "in_eph f s out = Inr (f s (fst out), snd out)"

definition in_eph_sint ::
  "(int \<Rightarrow> glonass_gnav_ephemeris \<Rightarrow> glonass_gnav_ephemeris) \<Rightarrow> bits
     \<Rightarrow> glonass_gnav_ephemeris \<times> glonass_gnav_utc_model
     \<Rightarrow> error + glonass_gnav_ephemeris \<times> glonass_gnav_utc_model" where
  "in_eph_sint f s out =
     (case bin_to_sint s of Inl e \<Rightarrow> Inl e | Inr v \<Rightarrow> Inr (f v (fst out), snd out))"

definition in_utc ::
  "(bits \<Rightarrow> glonass_gnav_utc_model \<Rightarrow> glonass_gnav_utc_model) \<Rightarrow> bits
     \<Rightarrow> glonass_gnav_ephemeris \<times> glonass_gnav_utc_model
     \<Rightarrow> error + glonass_gnav_ephemeris \<times> glonass_gnav_utc_model" where
  "in_utc f s out = Inr (fst out, f s (snd out))"

definition in_utc_sint ::
  "(int \<Rightarrow> glonass_gnav_utc_model \<Rightarrow> glonass_gnav_utc_model) \<Rightarrow> bits
     \<Rightarrow> glonass_gnav_ephemeris \<times> glonass_gnav_utc_model
     \<Rightarrow> error + glonass_gnav_ephemeris \<times> glonass_gnav_utc_model" where
  "in_utc_sint f s out =
     (case bin_to_sint s of Inl e \<Rightarrow> Inl e | Inr v \<Rightarrow> Inr (fst out, f v (snd out)))"

text \<open>The assignments of \<^verbatim>\<open>Rtcm::read_MT1020\<close> from the slot number to \<^verbatim>\<open>d_M\<close>. The two
  almanac health bits are read into local variables. \<^verbatim>\<open>d_t_k\<close> is not assigned: the
  three parts of the time are added to it, each with \<^verbatim>\<open>+=\<close>, after \<^const>\<open>bin_to_int\<close>.\<close>

definition read_MT1020_fields ::
  "math_constants \<Rightarrow> bits
     \<Rightarrow> (nat \<times> glonass_gnav_ephemeris \<times> glonass_gnav_utc_model
          \<Rightarrow> error + nat \<times> glonass_gnav_ephemeris \<times> glonass_gnav_utc_model) list" where
  "read_MT1020_fields c message_bin =
     [read_field message_bin 6 (in_eph (\<lambda>s r. r\<lparr>i_satellite_slot_number := bin_to_uint s\<rparr>)),
      read_field message_bin 5
        (in_eph (\<lambda>s r. r\<lparr>i_satellite_freq_channel := cpp_trunc (fl64 (of_int (bin_to_uint s) - 7))\<rparr>)),
      read_field message_bin 1 (in_eph (\<lambda>s r. r)),
      read_field message_bin 1 (in_eph (\<lambda>s r. r)),
      read_field message_bin 2
        (in_eph (\<lambda>s r. let P_1_tmp = bin_to_uint s
                       in r\<lparr>d_P_1 := (if P_1_tmp = 0 then 0 else of_int (((P_1_tmp + 1) * 15) mod 2 ^ 32))\<rparr>)),
      read_field message_bin 5
        (in_eph (\<lambda>s r. r\<lparr>d_t_k := fl64 (d_t_k r + fl64 (of_int (bin_to_int s) * 3600))\<rparr>)),
      read_field message_bin 6
        (in_eph (\<lambda>s r. r\<lparr>d_t_k := fl64 (d_t_k r + fl64 (of_int (bin_to_int s) * 60))\<rparr>)),
      read_field message_bin 1
        (in_eph (\<lambda>s r. r\<lparr>d_t_k := fl64 (d_t_k r + fl64 (of_int (bin_to_int s) * 30))\<rparr>)),
      read_field message_bin 1 (in_eph (\<lambda>s r. r\<lparr>d_B_n := of_int (bin_to_uint s)\<rparr>)),
      read_field message_bin 1 (in_eph (\<lambda>s r. r\<lparr>d_P_2 := (bin_to_uint s \<noteq> 0)\<rparr>)),
      read_field message_bin 7
        (in_eph (\<lambda>s r. r\<lparr>d_t_b := fl64 (fl64 (of_int (bin_to_uint s) * 15) * 60)\<rparr>)),
      read_field message_bin 24 (in_eph_sint (\<lambda>v r. r\<lparr>d_VXn := fl64 (of_int v * TWO_N20 c)\<rparr>)),
      read_field message_bin 27 (in_eph_sint (\<lambda>v r. r\<lparr>d_Xn := fl64 (of_int v * TWO_N11 c)\<rparr>)),
      read_field message_bin 5 (in_eph_sint (\<lambda>v r. r\<lparr>d_AXn := fl64 (of_int v * TWO_N30 c)\<rparr>)),
      read_field message_bin 24 (in_eph_sint (\<lambda>v r. r\<lparr>d_VYn := fl64 (of_int v * TWO_N20 c)\<rparr>)),
      read_field message_bin 27 (in_eph_sint (\<lambda>v r. r\<lparr>d_Yn := fl64 (of_int v * TWO_N11 c)\<rparr>)),
      read_field message_bin 5 (in_eph_sint (\<lambda>v r. r\<lparr>d_AYn := fl64 (of_int v * TWO_N30 c)\<rparr>)),
      read_field message_bin 24 (in_eph_sint (\<lambda>v r. r\<lparr>d_VZn := fl64 (of_int v * TWO_N20 c)\<rparr>)),
      read_field message_bin 27 (in_eph_sint (\<lambda>v r. r\<lparr>d_Zn := fl64 (of_int v * TWO_N11 c)\<rparr>)),
      read_field message_bin 5 (in_eph_sint (\<lambda>v r. r\<lparr>d_AZn := fl64 (of_int v * TWO_N30 c)\<rparr>)),
      read_field message_bin 1 (in_eph (\<lambda>s r. r\<lparr>d_P_3 := (bin_to_uint s \<noteq> 0)\<rparr>)),
      read_field message_bin 11 (in_eph_sint (\<lambda>v r. r\<lparr>d_gamma_n := fl64 (of_int v * TWO_N30 c)\<rparr>)),
      read_field message_bin 2 (in_eph (\<lambda>s r. r\<lparr>d_P := of_int (bin_to_uint s)\<rparr>)),
      read_field message_bin 1 (in_eph (\<lambda>s r. r\<lparr>d_l3rd_n := (bin_to_uint s \<noteq> 0)\<rparr>)),
      read_field message_bin 22 (in_eph_sint (\<lambda>v r. r\<lparr>d_tau_n := fl64 (of_int v * TWO_N30 c)\<rparr>)),
      read_field message_bin 5
        (in_eph_sint (\<lambda>v r. r\<lparr>d_Delta_tau_n := fl64 (of_int v * TWO_N30 c)\<rparr>)),
      read_field message_bin 5 (in_eph (\<lambda>s r. r\<lparr>d_E_n := of_int (bin_to_uint s)\<rparr>)),
      read_field message_bin 1 (in_eph (\<lambda>s r. r\<lparr>d_P_4 := (bin_to_uint s \<noteq> 0)\<rparr>)),
      read_field message_bin 4 (in_eph (\<lambda>s r. r\<lparr>d_F_T := of_int (bin_to_uint s)\<rparr>)),
      read_field message_bin 11 (in_eph (\<lambda>s r. r\<lparr>d_N_T := of_int (bin_to_uint s)\<rparr>)),
      read_field message_bin 2 (in_eph (\<lambda>s r. r\<lparr>d_M := of_int (bin_to_uint s)\<rparr>))]"

text \<open>The assignments under \<^verbatim>\<open>if (fifth_str_additional_data_ind == true)\<close>.\<close>

definition read_MT1020_additional_fields ::
  "math_constants \<Rightarrow> bits
     \<Rightarrow> (nat \<times> glonass_gnav_ephemeris \<times> glonass_gnav_utc_model
          \<Rightarrow> error + nat \<times> glonass_gnav_ephemeris \<times> glonass_gnav_utc_model) list" where
  "read_MT1020_additional_fields c message_bin =
     [read_field message_bin 11 (in_utc (\<lambda>s u. u\<lparr>d_N_A := of_int (bin_to_uint s)\<rparr>)),
      read_field message_bin 32 (in_utc_sint (\<lambda>v u. u\<lparr>d_tau_c := fl64 (of_int v * TWO_N31 c)\<rparr>)),
      read_field message_bin 5 (in_utc (\<lambda>s u. u\<lparr>d_N_4 := of_int (bin_to_uint s)\<rparr>)),
      read_field message_bin 22 (in_utc_sint (\<lambda>v u. u\<lparr>d_tau_gps := fl64 (of_int v * TWO_N30 c)\<rparr>)),
      read_field message_bin 1 (in_eph (\<lambda>s r. r\<lparr>d_l5th_n := (bin_to_uint s \<noteq> 0)\<rparr>))]"

text \<open>\<^verbatim>\<open>Rtcm::read_MT1020\<close>: the status, and the ephemeris and the UTC model after the
  call.\<close>

definition read_MT1020 ::
  "math_constants \<Rightarrow> byte list \<Rightarrow> glonass_gnav_ephemeris \<Rightarrow> glonass_gnav_utc_model
     \<Rightarrow> error + int \<times> glonass_gnav_ephemeris \<times> glonass_gnav_utc_model" where
  "read_MT1020 c message glonass_gnav_eph glonass_gnav_utc_model =
     (let message_bin = binary_data_to_bin message;
          crc_ok = check_CRC message
      in if isl crc_ok then Inl (projl crc_ok)
         else if \<not> projr crc_ok then Inr (1, glonass_gnav_eph, glonass_gnav_utc_model)
         else
           let preamble_length = 8;
               reserved_field_length = 6;
               index = preamble_length + reserved_field_length;
               len = substr message_bin index 10
           in if isl len then Inl (projl len)
              else
                let read_message_length = bin_to_uint (projr len);
                    index = index + 10
                in if read_message_length \<noteq> 45 then Inr (1, glonass_gnav_eph, glonass_gnav_utc_model)
                   else
                     let num = substr message_bin index 12
                     in if isl num then Inl (projl num)
                        else
                          let read_msg_number = bin_to_uint (projr num);
                              index = index + 12
                          in if 1020 \<noteq> read_msg_number
                             then Inr (1, glonass_gnav_eph, glonass_gnav_utc_model)
                             else
                               let result = run_readers (read_MT1020_fields c message_bin)
                                              (index, glonass_gnav_eph, glonass_gnav_utc_model)
                               in if isl result then Inl (projl result)
                                  else
                                    let index = fst (projr result);
                                        ind = substr message_bin index 1
                                    in if isl ind then Inl (projl ind)
                                       else
                                         let fifth_str_additional_data_ind = bin_to_uint (projr ind);
                                             index = index + 1
                                         in if fifth_str_additional_data_ind = 1
                                            then
                                              let extra = run_readers
                                                    (read_MT1020_additional_fields c message_bin)
                                                    (index, snd (projr result))
                                              in if isl extra then Inl (projl extra)
                                                 else Inr (0, snd (projr extra))
                                            else Inr (0, snd (projr result)))"

subsection \<open>Encoding\<close>

text \<open>Casts of a double to \<^verbatim>\<open>int32_t\<close> and to \<^verbatim>\<open>uint32_t\<close>: the integer part when it lies
  in the range of the type, undefined otherwise.\<close>

definition cast_int32 :: "real \<Rightarrow> error + int" where
  "cast_int32 x =
     (let v = cpp_trunc x in if - (2 ^ 31) \<le> v \<and> v < 2 ^ 31 then Inr v else Inl UndefinedCast)"

definition cast_uint32 :: "real \<Rightarrow> error + int" where
  "cast_uint32 x =
     (let v = cpp_trunc x in if 0 \<le> v \<and> v < 2 ^ 32 then Inr v else Inl UndefinedCast)"

text \<open>\<^verbatim>\<open>b.set(pos, val)\<close> on the string of a bitset, for a position inside the bitset:
  position 0 is the last character.\<close>

definition bitset_set :: "bits \<Rightarrow> nat \<Rightarrow> bool \<Rightarrow> bits" where
  "bitset_set b pos val = b[length b - 1 - pos := val]"

text \<open>The common body of the sign-magnitude setters \<^verbatim>\<open>set_DF111\<close> to \<^verbatim>\<open>set_DF119\<close>,
  \<^verbatim>\<open>set_DF121\<close>, \<^verbatim>\<open>set_DF124\<close> and \<^verbatim>\<open>set_DF125\<close> for a field of \<open>n\<close> bits:
  \<^verbatim>\<open>mag = static_cast<int32_t>(std::round(fabs(val / scale)))\<close>, \<^verbatim>\<open>sgn = glo_sgn(val)\<close>,
  \<^verbatim>\<open>DF = std::bitset<n>(mag); DF.set(n - 1, sgn)\<close>.\<close>

definition set_sign_magnitude :: "nat \<Rightarrow> real \<Rightarrow> real \<Rightarrow> error + bits" where
  "set_sign_magnitude n val scale =
     (case cast_int32 (of_int (cpp_round \<bar>fl64 (val / scale)\<bar>)) of
        Inl e \<Rightarrow> Inl e
      | Inr mag \<Rightarrow> let sgn = glo_sgn val in Inr (bitset_set (bitset n mag) (n - 1) (sgn \<noteq> 0)))"

text \<open>The common body of the setters that store \<^verbatim>\<open>static_cast<uint32_t>(std::round(val))\<close>
  in \<open>n\<close> bits.\<close>

definition set_rounded :: "nat \<Rightarrow> real \<Rightarrow> error + bits" where
  "set_rounded n val =
     (case cast_uint32 (of_int (cpp_round val)) of Inl e \<Rightarrow> Inl e | Inr v \<Rightarrow> Inr (bitset n v))"

definition set_DF038 :: "glonass_gnav_ephemeris \<Rightarrow> bits" where
  "set_DF038 glonass_gnav_eph = (let prn = i_satellite_slot_number glonass_gnav_eph in bitset 6 prn)"

definition set_DF040 :: "glonass_gnav_ephemeris \<Rightarrow> bits" where
  "set_DF040 glonass_gnav_eph =
     (let freq = (i_satellite_freq_channel glonass_gnav_eph + 7) mod 2 ^ 32 in bitset 5 freq)"

definition set_DF104 :: "int \<Rightarrow> bits" where
  "set_DF104 glonass_gnav_alm_health = bitset 1 glonass_gnav_alm_health"

definition set_DF105 :: "int \<Rightarrow> bits" where
  "set_DF105 glonass_gnav_alm_health_ind = bitset 1 glonass_gnav_alm_health_ind"

definition set_DF106 :: "glonass_gnav_ephemeris \<Rightarrow> error + bits" where
  "set_DF106 glonass_gnav_eph =
     (case cast_uint32 (of_int (cpp_round (fl64 (d_P_1 glonass_gnav_eph / 15)))) of
        Inl e \<Rightarrow> Inl e
      | Inr P_1_tmp \<Rightarrow> let P_1 = (if P_1_tmp = 0 then 0 else P_1_tmp - 1) in Inr (bitset 2 P_1))"

text \<open>\<^verbatim>\<open>Rtcm::set_DF107\<close>: hours, minutes and the half minute of \<^verbatim>\<open>d_t_k\<close>, in \<^verbatim>\<open>uint32_t\<close>;
  the half minute divides by 60.\<close>

definition set_DF107 :: "glonass_gnav_ephemeris \<Rightarrow> error + bits" where
  "set_DF107 glonass_gnav_eph =
     (case cast_int32 (d_t_k glonass_gnav_eph) of
        Inl e \<Rightarrow> Inl e
      | Inr t \<Rightarrow>
          let tk = t mod 2 ^ 32;
              hrs = tk div 3600;
              min = ((tk - hrs * 3600) mod 2 ^ 32) div 60;
              sec = ((tk - hrs * 3600 - min * 60) mod 2 ^ 32) div 60;
              hrs_bits = bitset 5 hrs;
              min_bits = bitset 6 min;
              sec_bits = bitset 1 sec
          in Inr (bitset_of_string 12 (hrs_bits @ min_bits @ sec_bits)))"

definition set_DF108 :: "glonass_gnav_ephemeris \<Rightarrow> bits" where
  "set_DF108 glonass_gnav_eph = bitset 1 (of_bool (d_B_n glonass_gnav_eph \<noteq> 0))"

definition set_DF109 :: "glonass_gnav_ephemeris \<Rightarrow> bits" where
  "set_DF109 glonass_gnav_eph = bitset 1 (of_bool (d_P_2 glonass_gnav_eph))"

definition set_DF110 :: "glonass_gnav_ephemeris \<Rightarrow> error + bits" where
  "set_DF110 glonass_gnav_eph =
     (case cast_uint32 (of_int (cpp_round (fl64 (d_t_b glonass_gnav_eph / (15 * 60))))) of
        Inl e \<Rightarrow> Inl e
      | Inr t_b \<Rightarrow> Inr (bitset 7 t_b))"

definition set_DF111 :: "math_constants \<Rightarrow> glonass_gnav_ephemeris \<Rightarrow> error + bits" where
  "set_DF111 c glonass_gnav_eph = set_sign_magnitude 24 (d_VXn glonass_gnav_eph) (TWO_N20 c)"

definition set_DF112 :: "math_constants \<Rightarrow> glonass_gnav_ephemeris \<Rightarrow> error + bits" where
  "set_DF112 c glonass_gnav_eph = set_sign_magnitude 27 (d_Xn glonass_gnav_eph) (TWO_N11 c)"

definition set_DF113 :: "math_constants \<Rightarrow> glonass_gnav_ephemeris \<Rightarrow> error + bits" where
  "set_DF113 c glonass_gnav_eph = set_sign_magnitude 5 (d_AXn glonass_gnav_eph) (TWO_N30 c)"

definition set_DF114 :: "math_constants \<Rightarrow> glonass_gnav_ephemeris \<Rightarrow> error + bits" where
  "set_DF114 c glonass_gnav_eph = set_sign_magnitude 24 (d_VYn glonass_gnav_eph) (TWO_N20 c)"

definition set_DF115 :: "math_constants \<Rightarrow> glonass_gnav_ephemeris \<Rightarrow> error + bits" where
  "set_DF115 c glonass_gnav_eph = set_sign_magnitude 27 (d_Yn glonass_gnav_eph) (TWO_N11 c)"

definition set_DF116 :: "math_constants \<Rightarrow> glonass_gnav_ephemeris \<Rightarrow> error + bits" where
  "set_DF116 c glonass_gnav_eph = set_sign_magnitude 5 (d_AYn glonass_gnav_eph) (TWO_N30 c)"

definition set_DF117 :: "math_constants \<Rightarrow> glonass_gnav_ephemeris \<Rightarrow> error + bits" where
  "set_DF117 c glonass_gnav_eph = set_sign_magnitude 24 (d_VZn glonass_gnav_eph) (TWO_N20 c)"

definition set_DF118 :: "math_constants \<Rightarrow> glonass_gnav_ephemeris \<Rightarrow> error + bits" where
  "set_DF118 c glonass_gnav_eph = set_sign_magnitude 27 (d_Zn glonass_gnav_eph) (TWO_N11 c)"

definition set_DF119 :: "math_constants \<Rightarrow> glonass_gnav_ephemeris \<Rightarrow> error + bits" where
  "set_DF119 c glonass_gnav_eph = set_sign_magnitude 5 (d_AZn glonass_gnav_eph) (TWO_N30 c)"

definition set_DF120 :: "glonass_gnav_ephemeris \<Rightarrow> bits" where
  "set_DF120 glonass_gnav_eph = bitset 1 (of_bool (d_P_3 glonass_gnav_eph))"

text \<open>\<^verbatim>\<open>Rtcm::set_DF121\<close> divides by \<^verbatim>\<open>TWO_N40\<close>.\<close>

definition set_DF121 :: "math_constants \<Rightarrow> glonass_gnav_ephemeris \<Rightarrow> error + bits" where
  "set_DF121 c glonass_gnav_eph = set_sign_magnitude 11 (d_gamma_n glonass_gnav_eph) (TWO_N40 c)"

definition set_DF122 :: "glonass_gnav_ephemeris \<Rightarrow> error + bits" where
  "set_DF122 glonass_gnav_eph = set_rounded 2 (d_P glonass_gnav_eph)"

definition set_DF123 :: "glonass_gnav_ephemeris \<Rightarrow> bits" where
  "set_DF123 glonass_gnav_eph = bitset 1 (of_bool (d_l3rd_n glonass_gnav_eph))"

definition set_DF124 :: "math_constants \<Rightarrow> glonass_gnav_ephemeris \<Rightarrow> error + bits" where
  "set_DF124 c glonass_gnav_eph = set_sign_magnitude 22 (d_tau_n glonass_gnav_eph) (TWO_N30 c)"

definition set_DF125 :: "math_constants \<Rightarrow> glonass_gnav_ephemeris \<Rightarrow> error + bits" where
  "set_DF125 c glonass_gnav_eph = set_sign_magnitude 5 (d_Delta_tau_n glonass_gnav_eph) (TWO_N30 c)"

definition set_DF126 :: "glonass_gnav_ephemeris \<Rightarrow> error + bits" where
  "set_DF126 glonass_gnav_eph = set_rounded 5 (d_E_n glonass_gnav_eph)"

definition set_DF127 :: "glonass_gnav_ephemeris \<Rightarrow> bits" where
  "set_DF127 glonass_gnav_eph = bitset 1 (of_bool (d_P_4 glonass_gnav_eph))"

definition set_DF128 :: "glonass_gnav_ephemeris \<Rightarrow> error + bits" where
  "set_DF128 glonass_gnav_eph = set_rounded 4 (d_F_T glonass_gnav_eph)"

definition set_DF129 :: "glonass_gnav_ephemeris \<Rightarrow> error + bits" where
  "set_DF129 glonass_gnav_eph = set_rounded 11 (d_N_T glonass_gnav_eph)"

definition set_DF130 :: "glonass_gnav_ephemeris \<Rightarrow> error + bits" where
  "set_DF130 glonass_gnav_eph = set_rounded 2 (d_M glonass_gnav_eph)"

definition set_DF131 :: "int \<Rightarrow> bits" where
  "set_DF131 fifth_str_additional_data_ind = bitset 1 fifth_str_additional_data_ind"

definition set_DF132 :: "glonass_gnav_utc_model \<Rightarrow> error + bits" where
  "set_DF132 glonass_gnav_utc_model = set_rounded 11 (d_N_A glonass_gnav_utc_model)"

text \<open>\<^verbatim>\<open>Rtcm::set_DF133\<close> and \<^verbatim>\<open>Rtcm::set_DF135\<close> store a two's complement \<^verbatim>\<open>int32_t\<close>;
  \<^verbatim>\<open>set_DF135\<close> rounds before it divides.\<close>

definition set_DF133 :: "math_constants \<Rightarrow> glonass_gnav_utc_model \<Rightarrow> error + bits" where
  "set_DF133 c glonass_gnav_utc_model =
     (case cast_int32 (of_int (cpp_round (fl64 (d_tau_c glonass_gnav_utc_model / TWO_N31 c)))) of
        Inl e \<Rightarrow> Inl e
      | Inr tau_c \<Rightarrow> Inr (bitset 32 tau_c))"

definition set_DF134 :: "glonass_gnav_utc_model \<Rightarrow> error + bits" where
  "set_DF134 glonass_gnav_utc_model = set_rounded 5 (d_N_4 glonass_gnav_utc_model)"

definition set_DF135 :: "math_constants \<Rightarrow> glonass_gnav_utc_model \<Rightarrow> error + bits" where
  "set_DF135 c glonass_gnav_utc_model =
     (case cast_int32 (fl64 (of_int (cpp_round (d_tau_gps glonass_gnav_utc_model)) / TWO_N30 c)) of
        Inl e \<Rightarrow> Inl e
      | Inr tau_gps \<Rightarrow> Inr (bitset 22 tau_gps))"

definition set_DF136 :: "glonass_gnav_ephemeris \<Rightarrow> bits" where
  "set_DF136 glonass_gnav_eph = bitset 1 (of_bool (d_l5th_n glonass_gnav_eph))"

text \<open>The fields of a message in the order in which the setters are called and the strings
  concatenated; the first undefined conversion ends the encoding.\<close>

fun concat_fields :: "(error + bits) list \<Rightarrow> error + bits" where
  "concat_fields [] = Inr []"
| "concat_fields (f # fs) =
     (case f of
        Inl e \<Rightarrow> Inl e
      | Inr s \<Rightarrow> (case concat_fields fs of Inl e \<Rightarrow> Inl e | Inr t \<Rightarrow> Inr (s @ t)))"

text \<open>\<^verbatim>\<open>Rtcm::print_MT1020\<close>. The warning for a length other than 360 and the push onto
  the transport queue do not change the returned frame.\<close>

definition print_MT1020 ::
  "math_constants \<Rightarrow> glonass_gnav_ephemeris \<Rightarrow> glonass_gnav_utc_model \<Rightarrow> error + byte list" where
  "print_MT1020 c glonass_gnav_eph glonass_gnav_utc_model =
     (let msg_number = 1020;
          glonass_gnav_alm_health = 0;
          glonass_gnav_alm_health_ind = 0;
          fifth_str_additional_data_ind = 1;
          data = concat_fields
            [Inr (set_DF002 msg_number),
             Inr (set_DF038 glonass_gnav_eph),
             Inr (set_DF040 glonass_gnav_eph),
             Inr (set_DF104 glonass_gnav_alm_health),
             Inr (set_DF105 glonass_gnav_alm_health_ind),
             set_DF106 glonass_gnav_eph,
             set_DF107 glonass_gnav_eph,
             Inr (set_DF108 glonass_gnav_eph),
             Inr (set_DF109 glonass_gnav_eph),
             set_DF110 glonass_gnav_eph,
             set_DF111 c glonass_gnav_eph,
             set_DF112 c glonass_gnav_eph,
             set_DF113 c glonass_gnav_eph,
             set_DF114 c glonass_gnav_eph,
             set_DF115 c glonass_gnav_eph,
             set_DF116 c glonass_gnav_eph,
             set_DF117 c glonass_gnav_eph,
             set_DF118 c glonass_gnav_eph,
             set_DF119 c glonass_gnav_eph,
             Inr (set_DF120 glonass_gnav_eph),
             set_DF121 c glonass_gnav_eph,
             set_DF122 glonass_gnav_eph,
             Inr (set_DF123 glonass_gnav_eph),
             set_DF124 c glonass_gnav_eph,
             set_DF125 c glonass_gnav_eph,
             set_DF126 glonass_gnav_eph,
             Inr (set_DF127 glonass_gnav_eph),
             set_DF128 glonass_gnav_eph,
             set_DF129 glonass_gnav_eph,
             set_DF130 glonass_gnav_eph,
             Inr (set_DF131 fifth_str_additional_data_ind),
             set_DF132 glonass_gnav_utc_model,
             set_DF133 c glonass_gnav_utc_model,
             set_DF134 glonass_gnav_utc_model,
             set_DF135 c glonass_gnav_utc_model,
             Inr (set_DF136 glonass_gnav_eph),
             Inr (bitset 7 0)]
      in if isl data then Inl (projl data) else build_message (projr data))"

subsection \<open>A GLONASS ephemeris\<close>

text \<open>The scaling constants are declared outside the file; here they have the powers of
  two that their names give. The ephemeris \<open>glonass_eph_example\<close> is satellite 3 at 12300
  seconds of the day (3 hours 25 minutes), with a velocity \<^verbatim>\<open>d_VXn\<close> of one unit of the field
  and every other field zero; \<open>glonass_eph_zero\<close> and \<open>glonass_utc_zero\<close> are freshly
  initialised records.\<close>

definition two_powers :: math_constants where
  "two_powers = \<lparr>TWO_N11 = 1 / 2 ^ 11, TWO_N20 = 1 / 2 ^ 20, TWO_N30 = 1 / 2 ^ 30,
     TWO_N31 = 1 / 2 ^ 31, TWO_N40 = 1 / 2 ^ 40\<rparr>"

definition glonass_eph_zero :: glonass_gnav_ephemeris where
  "glonass_eph_zero = \<lparr>i_satellite_slot_number = 0, i_satellite_freq_channel = 0, d_P_1 = 0,
     d_t_k = 0, d_B_n = 0, d_P_2 = False, d_t_b = 0, d_VXn = 0, d_Xn = 0, d_AXn = 0, d_VYn = 0,
     d_Yn = 0, d_AYn = 0, d_VZn = 0, d_Zn = 0, d_AZn = 0, d_P_3 = False, d_gamma_n = 0, d_P = 0,
     d_l3rd_n = False, d_tau_n = 0, d_Delta_tau_n = 0, d_E_n = 0, d_P_4 = False, d_F_T = 0,
     d_N_T = 0, d_M = 0, d_l5th_n = False\<rparr>"

definition glonass_utc_zero :: glonass_gnav_utc_model where
  "glonass_utc_zero = \<lparr>d_N_A = 0, d_tau_c = 0, d_N_4 = 0, d_tau_gps = 0\<rparr>"

definition glonass_eph_example :: glonass_gnav_ephemeris where
  "glonass_eph_example =
     glonass_eph_zero\<lparr>i_satellite_slot_number := 3, d_t_k := 12300, d_VXn := 1 / 2 ^ 20\<rparr>"

definition MT1020_example_frame :: "byte list" where
  "MT1020_example_frame =
     [211, 0, 45, 63, 192, 206, 3, 100, 0, 0, 0, 1, 0, 0, 0, 0, 0, 0, 0, 0, 0, 0, 0, 0, 0, 0, 0,
      0, 0, 0, 0, 0, 0, 0, 0, 0, 0, 0, 64, 0, 0, 0, 0, 0, 0, 0, 0, 0, 156, 221, 254]"

section \<open>Observables, satellite and signal masks\<close>

text \<open>The fields of \<^verbatim>\<open>Gnss_Synchro\<close> that the mask and ordering code reads:
  \<^verbatim>\<open>char System\<close>, \<^verbatim>\<open>char Signal[3]\<close> (a string of at most two characters) and
  \<^verbatim>\<open>uint32_t PRN\<close>. An observables map \<^verbatim>\<open>std::map<int32_t, Gnss_Synchro>\<close> is the list
  of its entries in iteration order.\<close>

record gnss_synchro =
  System :: char
  Signal :: string
  PRN :: int

type_synonym observables = "(int \<times> gnss_synchro) list"

text \<open>\<^verbatim>\<open>Rtcm::set_DF009(const Gnss_Synchro&)\<close>: a warning above 32, then the low six bits of
  the PRN.\<close>

definition set_DF009 :: "gnss_synchro \<Rightarrow> bits" where
  "set_DF009 gnss_synchro = (let prn = PRN gnss_synchro in bitset 6 prn)"

text \<open>\<^verbatim>\<open>Rtcm::set_DF394\<close>. \<^verbatim>\<open>mask_position = 64 - PRN\<close> is computed in \<^verbatim>\<open>uint32_t\<close>, and
  \<^verbatim>\<open>std::bitset<64>::set\<close> throws for a position of 64 or more.\<close>

fun set_DF394_loop :: "observables \<Rightarrow> 64 word \<Rightarrow> error + 64 word" where
  "set_DF394_loop [] DF394 = Inr DF394"
| "set_DF394_loop (gnss_synchro_iter # rest) DF394 =
     (let mask_position = (64 - PRN (snd gnss_synchro_iter)) mod 2 ^ 32
      in if 64 \<le> mask_position then Inl OutOfRange
         else set_DF394_loop rest (set_bit (nat mask_position) DF394))"

definition set_DF394 :: "observables \<Rightarrow> error + 64 word" where
  "set_DF394 gnss_synchro = set_DF394_loop gnss_synchro 0"

text \<open>\<^verbatim>\<open>Rtcm::set_DF395\<close>: the returned status and the mask. A signal that passes none of
  the eight tests sets no bit.\<close>

definition set_DF395_entry :: "32 word \<Rightarrow> int \<times> gnss_synchro \<Rightarrow> 32 word" where
  "set_DF395_entry DF395 gnss_synchro_iter =
     (let sig = take 2 (Signal (snd gnss_synchro_iter));
          sys = [System (snd gnss_synchro_iter)];
          DF395 = (if sig = ''1C'' \<and> sys = ''G'' then set_bit (32 - 2) DF395 else DF395);
          DF395 = (if sig = ''2S'' \<and> sys = ''G'' then set_bit (32 - 15) DF395 else DF395);
          DF395 = (if sig = ''5X'' \<and> sys = ''G'' then set_bit (32 - 24) DF395 else DF395);
          DF395 = (if sig = ''1B'' \<and> sys = ''E'' then set_bit (32 - 4) DF395 else DF395);
          DF395 = (if sig = ''5X'' \<and> sys = ''E'' then set_bit (32 - 24) DF395 else DF395);
          DF395 = (if sig = ''7X'' \<and> sys = ''E'' then set_bit (32 - 16) DF395 else DF395);
          DF395 = (if sig = ''1C'' \<and> sys = ''R'' then set_bit (32 - 2) DF395 else DF395);
          DF395 = (if sig = ''2C'' \<and> sys = ''R'' then set_bit (32 - 8) DF395 else DF395)
      in DF395)"

definition set_DF395 :: "observables \<Rightarrow> int \<times> 32 word" where
  "set_DF395 gnss_synchro =
     (if gnss_synchro = [] then (1, 0) else (0, foldl set_DF395_entry 0 gnss_synchro))"

text \<open>\<^verbatim>\<open>gps_signal_map\<close> and \<^verbatim>\<open>galileo_signal_map\<close>, and \<^verbatim>\<open>std::map::at\<close>, which throws
  for a key that is not in the map.\<close>

definition gps_signal_map :: "(string \<times> int) list" where
  "gps_signal_map =
     [(''1C'', 2), (''1P'', 3), (''1W'', 4), (''2C'', 8), (''2P'', 9), (''2W'', 10), (''2S'', 15),
      (''2L'', 16), (''2X'', 17), (''5I'', 22), (''5Q'', 23), (''5X'', 24), (''L5'', 24)]"

definition galileo_signal_map :: "(string \<times> int) list" where
  "galileo_signal_map =
     [(''1C'', 2), (''1A'', 3), (''1B'', 4), (''1X'', 5), (''1Z'', 6), (''6C'', 8), (''6A'', 9),
      (''6B'', 10), (''6X'', 11), (''6Z'', 12), (''7I'', 14), (''7Q'', 15), (''7X'', 16),
      (''8I'', 18), (''8Q'', 19), (''8X'', 20), (''5I'', 22), (''5Q'', 23), (''5X'', 24),
      (''E6'', 10)]"

definition map_at :: "('k \<times> 'v) list \<Rightarrow> 'k \<Rightarrow> error + 'v" where
  "map_at m k = (case map_of m k of None \<Rightarrow> Inl OutOfRange | Some v \<Rightarrow> Inr v)"

text \<open>The comparison \<^verbatim>\<open>has_lower_signalID\<close> of \<^verbatim>\<open>Rtcm::sort_by_signal\<close>: the four
  conditional lookups in the order of the source, each of which can throw.\<close>

definition has_lower_signalID :: "int \<times> gnss_synchro \<Rightarrow> int \<times> gnss_synchro \<Rightarrow> error + bool" where
  "has_lower_signalID a b =
     (let system_a = [System (snd a)];
          system_b = [System (snd b)];
          sig_a = take 2 (Signal (snd a));
          sig_b = take 2 (Signal (snd b))
      in case (if system_a = ''G'' then map_at gps_signal_map sig_a else Inr 0) of
           Inl e \<Rightarrow> Inl e
         | Inr value_a \<Rightarrow>
             (case (if system_a = ''E'' then map_at galileo_signal_map sig_a else Inr value_a) of
                Inl e \<Rightarrow> Inl e
              | Inr value_a \<Rightarrow>
                  (case (if system_b = ''G'' then map_at gps_signal_map sig_b else Inr 0) of
                     Inl e \<Rightarrow> Inl e
                   | Inr value_b \<Rightarrow>
                       (case (if system_b = ''E'' then map_at galileo_signal_map sig_b
                              else Inr value_b) of
                          Inl e \<Rightarrow> Inl e
                        | Inr value_b \<Rightarrow> Inr (value_a < value_b)))))"

text \<open>\<^verbatim>\<open>std::sort\<close> with a comparison that can throw. The standard leaves the algorithm
  open; this is insertion sort: each further element is compared with the elements
  already sorted until its place is found, and the first element is compared with
  nothing. An exception of the comparison leaves the sort.\<close>

fun sort_insert :: "('a \<Rightarrow> 'a \<Rightarrow> error + bool) \<Rightarrow> 'a \<Rightarrow> 'a list \<Rightarrow> error + 'a list" where
  "sort_insert lower x [] = Inr [x]"
| "sort_insert lower x (y # ys) =
     (case lower x y of
        Inl e \<Rightarrow> Inl e
      | Inr is_lower \<Rightarrow>
          if is_lower then Inr (x # y # ys)
          else (case sort_insert lower x ys of Inl e \<Rightarrow> Inl e | Inr zs \<Rightarrow> Inr (y # zs)))"

fun std_sort_from :: "('a \<Rightarrow> 'a \<Rightarrow> error + bool) \<Rightarrow> 'a list \<Rightarrow> 'a list \<Rightarrow> error + 'a list" where
  "std_sort_from lower placed [] = Inr placed"
| "std_sort_from lower placed (x # xs) =
     (case sort_insert lower x placed of
        Inl e \<Rightarrow> Inl e
      | Inr placed' \<Rightarrow> std_sort_from lower placed' xs)"

definition std_sort :: "('a \<Rightarrow> 'a \<Rightarrow> error + bool) \<Rightarrow> 'a list \<Rightarrow> error + 'a list" where
  "std_sort lower xs = std_sort_from lower [] xs"

text \<open>\<^verbatim>\<open>Rtcm::sort_by_signal\<close>: the vector is copied and sorted.\<close>

definition sort_by_signal :: "observables \<Rightarrow> error + observables" where
  "sort_by_signal synchro_map = (let my_vec = synchro_map in std_sort has_lower_signalID my_vec)"

section \<open>Notions used to state the properties of the transport layer\<close>

text \<open>The 24 bits ahead of the payload in \<^const>\<open>build_message\<close> and the zero padding
  after it, named so that the frame can be described.\<close>

definition frame_header :: "bits \<Rightarrow> bits" where
  "frame_header data = preamble @ reserved_field
     @ bitset 10 ((float_of_uint32 (int (length data) mod 2 ^ 32) + 7) div 8)"

definition frame_padding :: "bits \<Rightarrow> bits" where
  "frame_padding data = replicate (nat ((8 * ((float_of_uint32 (int (length data) mod 2 ^ 32) + 7) div 8)
       - int (length data) mod 2 ^ 32) mod 2 ^ 32)) False"

text \<open>A single-bit error: bit \<open>k\<close> of the frame, counted from the first bit of the first
  byte, is inverted.\<close>

definition flip_frame_bit :: "nat \<Rightarrow> byte list \<Rightarrow> byte list" where
  "flip_frame_bit k frame = frame[k div 8 := (frame ! (k div 8)) XOR push_bit (7 - k mod 8) 1]"

section \<open>The sign-magnitude primitive\<close>

text \<open>What \<^const>\<open>bin_to_sint\<close> computes on a string of 1 to 32 digits: the digits after
  the first are the magnitude, and the result is positive when the first digit is 1 and
  negative when it is 0.\<close>

lemma bin_to_sint_value:
  assumes "s \<noteq> []" and "length s \<le> 32"
  shows "bin_to_sint s = Inr ((if hd s then 1 else - 1) * bin_val (tl s))"
proof -
  obtain b bs where s: "s = b # bs" using assms(1) by (cases s) auto
  show ?thesis using assms(2) by (cases b) (simp_all add: s bin_to_sint_def substr_def)
qed

text \<open>
  Claim C2 (sign-magnitude decoding convention): a leading 1 means negative, as
  \<^const>\<open>glo_sgn\<close> encodes it. The code decodes the other way round: the string
  \<^verbatim>\<open>101\<close>, sign bit 1 and magnitude 1, which is how the setters encode \<open>- 1\<close>, is read as
  \<open>+ 1\<close>, and \<^verbatim>\<open>001\<close> is read as \<open>- 1\<close>.
\<close>

theorem bin_to_sint_sign_inverted:
  "bin_to_sint [True, False, True] = Inr 1
   \<and> bin_to_sint [False, False, True] = Inr (- 1)
   \<and> glo_sgn (- 1) = 1 \<and> glo_sgn 1 = 0"
  by (simp add: bin_to_sint_def substr_def bin_val_def glo_sgn_def)

section \<open>The literal MT1005 frame\<close>

text \<open>The factor 10000 and binary64 rounding: the double nearest to \<open>-4850729.7108\<close>
  times 10000 is not an integer in binary64, and the double nearest to \<open>0.00035\<close> times
  10000 is rounded to \<open>3.5\<close>, which \<^verbatim>\<open>std::round\<close> takes to 4.\<close>

lemma ecef_y_product:
  "fl64 (fl64 (- 4850729.7108) * 10000) = - (6357948446539775 / 131072)"
  by code_simp

lemma set_DF025_half_up:
  "fl64 (fl64 0.00035 * 10000) = 7 / 2 \<and> set_DF025 (fl64 0.00035) = Inr (bitset 38 4)"
  by code_simp

text \<open>
  Claim C3 (literal MT1005 test vector). The station description of reference station
  2003, GPS only, a physical station, no single receiver oscillator, quarter cycle
  indicator 0 and antenna reference point (1114104.5999, -4850729.7108, 3975521.4643) m,
  each coordinate being the binary64 value of its decimal, is encoded as the 25 bytes
  D3 00 13 3E D7 D3 02 02 98 0E DE EF 34 B4 BD 62 AC 09 41 98 6F 33 36 0B 98, by
  \<^const>\<open>print_MT1005\<close> and by the built-in \<^const>\<open>print_MT1005_test\<close> alike.
\<close>

theorem print_MT1005_literal_frame:
  "print_MT1005 2003 (fl64 1114104.5999) (fl64 (- 4850729.7108)) (fl64 3975521.4643)
       True False False False False 0
     = Inr [0xD3, 0x00, 0x13, 0x3E, 0xD7, 0xD3, 0x02, 0x02, 0x98, 0x0E, 0xDE, 0xEF, 0x34, 0xB4,
            0xBD, 0x62, 0xAC, 0x09, 0x41, 0x98, 0x6F, 0x33, 0x36, 0x0B, 0x98]
   \<and> print_MT1005_test
     = Inr [0xD3, 0x00, 0x13, 0x3E, 0xD7, 0xD3, 0x02, 0x02, 0x98, 0x0E, 0xDE, 0xEF, 0x34, 0xB4,
            0xBD, 0x62, 0xAC, 0x09, 0x41, 0x98, 0x6F, 0x33, 0x36, 0x0B, 0x98]"
  by code_simp

section \<open>Satellite mask, signal mask and signal order\<close>

lemma set_DF394_first_out_of_range:
  assumes "64 \<le> (64 - PRN g) mod 2 ^ 32"
  shows "set_DF394 ((k, g) # rest) = Inl OutOfRange"
  using assms by (simp add: set_DF394_def)

text \<open>
  Claim C6 (encode-path totality): no setter throws on a value that does not fit its
  field, \<^const>\<open>set_DF394\<close> included for any PRN. \<^const>\<open>set_DF009\<close> does truncate: PRN 200
  gives the six bits of 8. \<^const>\<open>set_DF394\<close> does not complete for PRN 0, where the mask
  position is 64, nor for PRN 200, where the unsigned subtraction wraps around: the
  \<^verbatim>\<open>std::out_of_range\<close> of \<^verbatim>\<open>std::bitset<64>::set\<close> leaves the setter.
\<close>

theorem set_DF394_throws:
  "set_DF394 [(0, \<lparr>System = CHR ''E'', Signal = ''1B'', PRN = 0\<rparr>)] = Inl OutOfRange
   \<and> set_DF394 [(0, \<lparr>System = CHR ''G'', Signal = ''1C'', PRN = 200\<rparr>)] = Inl OutOfRange
   \<and> set_DF009 \<lparr>System = CHR ''G'', Signal = ''1C'', PRN = 200\<rparr> = bitset 6 8"
  by (simp add: set_DF394_def set_DF009_def bitset_def bit_numeral_Bit0_Suc_iff
      bit_numeral_Bit1_Suc_iff upt_rec numeral_2_eq_2 numeral_3_eq_3 eval_nat_numeral)

text \<open>
  Claim C8 (unrecognized signal handling): an observable whose signal is not in the table
  of its constellation never raises an error on the MSM encode path. Of two GPS
  observables with the signals 1C and 1Z, \<^const>\<open>set_DF395\<close> masks the first and skips the
  second, and \<^const>\<open>sort_by_signal\<close> is left by the \<^verbatim>\<open>std::out_of_range\<close> of
  \<^verbatim>\<open>gps_signal_map.at\<close>.
\<close>

theorem sort_by_signal_throws:
  "sort_by_signal [(1, \<lparr>System = CHR ''G'', Signal = ''1C'', PRN = 1\<rparr>),
                   (2, \<lparr>System = CHR ''G'', Signal = ''1Z'', PRN = 2\<rparr>)] = Inl OutOfRange
   \<and> set_DF395 [(1, \<lparr>System = CHR ''G'', Signal = ''1C'', PRN = 1\<rparr>),
                   (2, \<lparr>System = CHR ''G'', Signal = ''1Z'', PRN = 2\<rparr>)] = (0, set_bit 30 0)"
  by (simp add: sort_by_signal_def std_sort_def has_lower_signalID_def map_at_def
      gps_signal_map_def set_DF395_def set_DF395_entry_def)

section \<open>Binary-digit strings and bytes\<close>

lemma length_bitset [simp]: "length (bitset n v) = n"
  by (simp add: bitset_def)

lemma bin_val_snoc: "bin_val (xs @ [b]) = 2 * bin_val xs + of_bool b"
  by (simp add: bin_val_def)

lemma bin_val_Nil [simp]: "bin_val [] = 0"
  by (simp add: bin_val_def)

lemma bin_val_append: "bin_val (xs @ ys) = bin_val xs * 2 ^ length ys + bin_val ys"
proof (induction ys rule: rev_induct)
  case Nil
  then show ?case by simp
next
  case (snoc y ys)
  have "bin_val (xs @ ys @ [y]) = 2 * bin_val (xs @ ys) + of_bool y"
    using bin_val_snoc [of "xs @ ys" y] by simp
  then show ?case
    by (simp add: snoc.IH bin_val_snoc algebra_simps)
qed

lemma bin_val_range: "0 \<le> bin_val xs \<and> bin_val xs < 2 ^ length xs"
proof (induction xs rule: rev_induct)
  case Nil
  then show ?case by simp
next
  case (snoc x xs)
  then show ?case by (cases x) (simp_all add: bin_val_snoc)
qed

lemma bitset_Suc: "bitset (Suc n) v = bitset n (v div 2) @ [odd v]"
proof -
  have "[0..<Suc n] = 0 # map Suc [0..<n]"
    by (simp add: upt_conv_Cons map_Suc_upt del: upt_Suc)
  then have "map (bit v) [0..<Suc n] = odd v # map (bit (v div 2)) [0..<n]"
    by (simp add: bit_0 bit_Suc comp_def del: upt_Suc)
  then show ?thesis
    by (simp add: bitset_def del: upt_Suc)
qed

lemma bitset_bin_val: "length xs = n \<Longrightarrow> bitset n (bin_val xs) = xs"
proof (induction xs arbitrary: n rule: rev_induct)
  case Nil
  then show ?case by (simp add: bitset_def)
next
  case (snoc x xs)
  then obtain m where n: "n = Suc m" and m: "length xs = m" by (cases n) auto
  have "(2 * bin_val xs + of_bool x) div 2 = bin_val xs" by (cases x) simp_all
  moreover have "odd (2 * bin_val xs + of_bool x) = x" by (cases x) simp_all
  ultimately show ?case
    using snoc.IH [OF m] by (simp add: n bitset_Suc bin_val_snoc)
qed

lemma bin_val_bitset: "bin_val (bitset n v) = take_bit n v"
proof (induction n arbitrary: v)
  case 0
  then show ?case by (simp add: bitset_def)
next
  case (Suc n)
  show ?case
    by (simp add: bitset_Suc bin_val_snoc Suc.IH take_bit_Suc mod_2_eq_odd)
qed

lemma bitset_uint_inj: "bitset 24 (uint (a :: 24 word)) = bitset 24 (uint b) \<longleftrightarrow> a = b"
proof
  assume "bitset 24 (uint a) = bitset 24 (uint b)"
  then have "bin_val (bitset 24 (uint a)) = bin_val (bitset 24 (uint b))" by simp
  then have "take_bit 24 (uint a) = take_bit 24 (uint b)" by (simp only: bin_val_bitset)
  then have "uint a = uint b" by (simp add: bintr_uint)
  then show "a = b" by (rule word_uint_eqI)
qed simp

lemma byte_of_bits: "length xs = 8 \<Longrightarrow> bitset 8 (uint (word_of_int (bin_val xs) :: byte)) = xs"
proof -
  assume l: "length xs = 8"
  have "0 \<le> bin_val xs \<and> bin_val xs < 2 ^ 8" using bin_val_range [of xs] l by simp
  then have "uint (word_of_int (bin_val xs) :: byte) = bin_val xs"
    by (simp add: uint_word_of_int take_bit_eq_mod)
  then show ?thesis using l by (simp add: bitset_bin_val)
qed


lemma concat_chunks:
  "length s = 8 * m \<Longrightarrow> concat (map (\<lambda>k. take 8 (drop (8 * k) s)) [0..<m]) = s"
proof (induction m arbitrary: s)
  case 0
  then show ?case by simp
next
  case (Suc m)
  have u: "[0..<Suc m] = 0 # map Suc [0..<m]"
    by (simp add: upt_conv_Cons map_Suc_upt del: upt_Suc)
  have "length (drop 8 s) = 8 * m" using Suc.prems by simp
  from Suc.IH [OF this]
  have "concat (map (\<lambda>k. take 8 (drop (8 * Suc k) s)) [0..<m]) = drop 8 s"
    by (simp add: add.commute)
  then show ?case
    by (simp add: u comp_def del: upt_Suc)
qed

lemma block_bytes_bits:
  assumes "length s mod 8 = 0"
  shows "binary_data_to_bin (block_bytes s) = s"
proof -
  from assms have "8 dvd length s" by (simp add: dvd_eq_mod_eq_0)
  then obtain m where m: "length s = 8 * m" by (elim dvdE)
  have "\<And>k. k < m \<Longrightarrow> length (take 8 (drop (8 * k) s)) = 8" using m by simp
  then have e: "map (\<lambda>k. bitset 8 (uint (word_of_int (bin_val (take 8 (drop (8 * k) s))) :: byte))) [0..<m]
        = map (\<lambda>k. take 8 (drop (8 * k) s)) [0..<m]"
    by (intro map_cong refl byte_of_bits) simp
  have "binary_data_to_bin (block_bytes s)
      = concat (map (\<lambda>k. bitset 8 (uint (word_of_int (bin_val (take 8 (drop (8 * k) s))) :: byte))) [0..<m])"
    by (simp add: binary_data_to_bin_def block_bytes_def m comp_def)
  also have "\<dots> = concat (map (\<lambda>k. take 8 (drop (8 * k) s)) [0..<m])"
    by (simp only: e)
  also have "\<dots> = s" by (rule concat_chunks [OF m])
  finally show ?thesis .
qed

lemma length_block_bytes: "length s mod 8 = 0 \<Longrightarrow> length (block_bytes s) = length s div 8"
  by (simp add: block_bytes_def)

lemma nibbles_byte:
  assumes "i + 8 \<le> length s"
  shows "word_of_int (bin_val (take 4 (drop i s)) * 16) + word_of_int (bin_val (take 4 (drop (i + 4) s)))
      = (word_of_int (bin_val (take 8 (drop i s))) :: byte)"
proof -
  have "take 8 (drop i s) = take 4 (drop i s) @ take 4 (drop (i + 4) s)"
    by (metis add.commute drop_drop numeral_Bit0 take_add)
  moreover have "length (take 4 (drop (i + 4) s)) = 4" using assms by simp
  ultimately have "bin_val (take 8 (drop i s))
      = bin_val (take 4 (drop i s)) * 16 + bin_val (take 4 (drop (i + 4) s))"
    by (simp add: bin_val_append)
  then show ?thesis by simp
qed

lemma bin_to_binary_data_blocks:
  assumes "length s mod 8 = 0" and "s \<noteq> []"
  shows "bin_to_binary_data s = Inr (block_bytes s)"
proof -
  have "map (\<lambda>k. word_of_int (bin_val (take 4 (drop (8 * k) s)) * 16)
                 + word_of_int (bin_val (take 4 (drop (8 * k + 4) s)))) [0..<length s div 8]
      = map (\<lambda>k. (word_of_int (bin_val (take 8 (drop (8 * k) s))) :: byte)) [0..<length s div 8]"
  proof (intro map_cong refl nibbles_byte)
    fix k assume "k \<in> set [0..<length s div 8]"
    then show "8 * k + 8 \<le> length s" using assms(1) by auto
  qed
  then show ?thesis
    using assms by (simp add: bin_to_binary_data_def block_bytes_def Let_def)
qed


lemma process_bytes_block_bytes:
  "length s mod 8 = 0 \<Longrightarrow> process_bytes r (block_bytes s) = foldl crc_step r s"
  using block_bytes_bits [of s] by (simp add: process_bytes_def binary_data_to_bin_def)

lemma add_CRC_frame:
  assumes "length m mod 8 = 0"
  shows "\<exists>frame. add_CRC m = Inr frame
           \<and> binary_data_to_bin frame = m @ bitset 24 (uint (foldl crc_step 0 m))
           \<and> length frame = length m div 8 + 3"
proof -
  let ?c = "bitset 24 (uint (foldl crc_step 0 m))"
  have l: "length (m @ ?c) mod 8 = 0" using assms by (simp add: mod_add_left_eq) presburger
  have n: "m @ ?c \<noteq> []" by (simp add: bitset_def del: upt_Suc)
  have "add_CRC m = Inr (block_bytes (m @ ?c))"
    using bin_to_binary_data_blocks [OF l n] assms
    by (simp add: add_CRC_def process_bytes_block_bytes)
  moreover have "binary_data_to_bin (block_bytes (m @ ?c)) = m @ ?c"
    by (rule block_bytes_bits [OF l])
  moreover have "length (block_bytes (m @ ?c)) = length m div 8 + 3"
    using length_block_bytes [OF l] assms by simp
  ultimately show ?thesis by blast
qed

lemma build_message_add_CRC:
  "build_message data = add_CRC (frame_header data @ data @ frame_padding data)"
  by (simp add: build_message_def frame_header_def frame_padding_def Let_def)

lemma length_frame_header [simp]: "length (frame_header data) = 24"
  by (simp add: frame_header_def preamble_def reserved_field_def)

lemma padded_length:
  "(length data + length (frame_padding data)) mod 8 = 0"
proof -
  define L where "L = int (length data)"
  define m where "m = L mod 2 ^ 32"
  define nb where "nb = (float_of_uint32 m + 7) div 8"
  define z where "z = (8 * nb - m) mod 2 ^ 32"
  have d: "(8 :: int) dvd 2 ^ 32" by simp
  have z0: "0 \<le> z" by (simp add: z_def)
  have a: "z mod 8 = (8 * nb - m) mod 8"
    unfolding z_def by (rule mod_mod_cancel [OF d])
  have b: "L mod 8 = m mod 8"
    unfolding m_def by (rule mod_mod_cancel [OF d, symmetric])
  have "(L + z) mod 8 = (L mod 8 + z mod 8) mod 8"
    by (rule mod_add_eq [symmetric])
  also have "\<dots> = (m mod 8 + (8 * nb - m) mod 8) mod 8"
    by (simp only: a b)
  also have "\<dots> = (m + (8 * nb - m)) mod 8"
    by (rule mod_add_eq)
  also have "\<dots> = 0" by simp
  finally have lz: "(L + z) mod 8 = 0" .
  have pad: "int (length (frame_padding data)) = z"
    unfolding frame_padding_def z_def nb_def m_def L_def length_replicate
    using z0 [unfolded z_def nb_def m_def L_def] by (rule int_nat_eq [THEN trans, OF if_P])
  have "int ((length data + length (frame_padding data)) mod 8) = (L + z) mod 8"
    by (simp only: zmod_int of_nat_add pad L_def of_nat_numeral)
  then show ?thesis by (simp only: lz of_nat_eq_0_iff)
qed

lemma build_message_frame:
  "\<exists>frame. build_message data = Inr frame
     \<and> binary_data_to_bin frame
         = (frame_header data @ data @ frame_padding data)
           @ bitset 24 (uint (foldl crc_step 0 (frame_header data @ data @ frame_padding data)))
     \<and> length frame = (24 + length data + length (frame_padding data)) div 8 + 3"
proof -
  have "length (frame_header data @ data @ frame_padding data) mod 8 = 0"
    using padded_length [of data] by (simp add: add.assoc) presburger
  from add_CRC_frame [OF this] show ?thesis
    by (simp add: build_message_add_CRC add.assoc)
qed


lemma build_message_one_bit:
  "build_message [True] = Inr [0xD3, 0x00, 0x01, 0x80, 0x39, 0x5F, 0x29]"
  by code_simp

lemma float_of_uint32_small: "n < 2 ^ 24 \<Longrightarrow> float_of_uint32 n = n"
  by (simp add: float_of_uint32_def)

section \<open>The frame built by \<^const>\<open>build_message\<close>\<close>

text \<open>
  Claim C4 (frame length invariant). For a payload of \<open>L\<close> binary digits with
  \<open>1 \<le> L \<le> 8184\<close>, \<^const>\<open>build_message\<close> returns a frame of exactly
  \<open>3 + \<lceil>L / 8\<rceil> + 3\<close> bytes, and the ten digits after the preamble and the reserved
  field, read as the decoders read them, give \<open>\<lceil>L / 8\<rceil>\<close>.
\<close>

theorem build_message_length:
  assumes "1 \<le> length data" and "length data \<le> 8184"
  shows "\<exists>frame field. build_message data = Inr frame
           \<and> length frame = 3 + (length data + 7) div 8 + 3
           \<and> substr (binary_data_to_bin frame) 14 10 = Inr field
           \<and> bin_to_uint field = int ((length data + 7) div 8)"
proof -
  define L where "L = length data"
  define nb where "nb = (L + 7) div 8"
  have L: "L \<le> 8184" "1 \<le> L" using assms by (simp_all add: L_def)
  have m: "int L mod 4294967296 = int L" using L by simp
  have f: "float_of_uint32 (int L) = int L" using L by (simp add: float_of_uint32_small)
  have nbi: "(int L + 7) div 8 = int nb" by (simp add: nb_def zdiv_int)
  have nb: "nb \<le> 1023" "L \<le> 8 * nb" using L by (simp_all add: nb_def)
  have z: "(8 * int nb - int L) mod 4294967296 = int (8 * nb - L)"
    using nb by (simp add: of_nat_diff)
  have hd: "frame_header data = preamble @ reserved_field @ bitset 10 (int nb)"
    by (simp add: frame_header_def m f nbi flip: L_def)
  have pad: "length (frame_padding data) = 8 * nb - L"
    by (simp add: frame_padding_def m f nbi z flip: L_def)
  obtain frame where fr: "build_message data = Inr frame"
    and bits: "binary_data_to_bin frame
         = (frame_header data @ data @ frame_padding data)
           @ bitset 24 (uint (foldl crc_step 0 (frame_header data @ data @ frame_padding data)))"
    and len: "length frame = (24 + length data + length (frame_padding data)) div 8 + 3"
    using build_message_frame [of data] by blast
  have "length frame = 3 + nb + 3"
    using nb by (simp add: len pad flip: L_def)
  moreover have "substr (binary_data_to_bin frame) 14 10 = Inr (bitset 10 (int nb))"
    by (simp add: bits hd substr_def preamble_def reserved_field_def)
  moreover have "bin_to_uint (bitset 10 (int nb)) = int nb"
    using nb by (simp add: bin_to_uint_def bin_val_bitset take_bit_eq_mod)
  ultimately show ?thesis
    using fr by (simp add: nb_def L_def)
qed

theorem build_message_length_witness:
  "1 \<le> length [True, False, True] \<and> length [True, False, True] \<le> 8184
   \<and> (\<exists>frame field. build_message [True, False, True] = Inr frame
           \<and> length frame = 7
           \<and> substr (binary_data_to_bin frame) 14 10 = Inr field
           \<and> bin_to_uint field = 1)"
  using build_message_length [of "[True, False, True]"] by simp

section \<open>CRC-24Q detects every single-bit error\<close>

lemma crc_step_xor: "crc_step (a XOR d) x = crc_step a x XOR crc_step d False"
  by (simp add: crc_step_def bit_xor_iff push_bit_xor ac_simps)

lemma crc_step_flip: "crc_step r (\<not> x) = crc_step r x XOR 0x864CFB"
  by (simp add: crc_step_def xor.assoc)

lemma crc_step_nonzero:
  assumes "d \<noteq> 0"
  shows "crc_step d False \<noteq> 0"
proof
  assume z: "crc_step d False = 0"
  show False
  proof (cases "bit d 23")
    case True
    with z have "push_bit 1 d XOR 0x864CFB = 0" by (simp add: crc_step_def)
    then have "bit (push_bit 1 d XOR (0x864CFB :: 24 word)) 0 = bit (0 :: 24 word) 0" by simp
    then show False by (simp add: bit_xor_iff bit_push_bit_iff bit_0 even_xor_iff)
  next
    case False
    with z have p: "push_bit 1 d = 0" by (simp add: crc_step_def)
    have "d = 0"
    proof (rule bit_eqI)
      fix n assume "possible_bit TYPE(24 word) n"
      then have n: "n < 24" by (simp add: possible_bit_word)
      show "bit d n = bit (0 :: 24 word) n"
      proof (cases "n = 23")
        case True
        then show ?thesis using False by simp
      next
        case False
        then have "Suc n < 24" using n by simp
        then have "bit (push_bit 1 d) (Suc n) = bit d n"
          unfolding bit_push_bit_iff by (simp add: possible_bit_word)
        then have "bit (0 :: 24 word) (Suc n) = bit d n" by (simp only: p)
        then show ?thesis by simp
      qed
    qed
    with assms show False by simp
  qed
qed

lemma crc_zero_input_nonzero:
  "d \<noteq> 0 \<Longrightarrow> foldl crc_step d (replicate n False) \<noteq> 0"
  by (induction n arbitrary: d) (simp_all add: crc_step_nonzero)

lemma crc_fold_xor:
  "foldl crc_step (a XOR d) xs = foldl crc_step a xs XOR foldl crc_step d (replicate (length xs) False)"
proof (induction xs arbitrary: a d)
  case Nil
  then show ?case by simp
next
  case (Cons x xs)
  show ?case by (simp add: crc_step_xor [of a d x] Cons.IH)
qed

lemma crc_single_flip:
  assumes "k < length xs"
  shows "foldl crc_step r (xs[k := \<not> xs ! k]) \<noteq> foldl crc_step r xs"
proof -
  define pre where "pre = take k xs"
  define post where "post = drop (Suc k) xs"
  define r' where "r' = foldl crc_step r pre"
  have xs: "xs = pre @ xs ! k # post"
    using assms by (simp add: pre_def post_def id_take_nth_drop)
  have "length pre = k" using assms by (simp add: pre_def)
  then have upd: "xs[k := \<not> xs ! k] = pre @ (\<not> xs ! k) # post"
    by (subst xs) (simp add: list_update_append)
  have "foldl crc_step r (xs[k := \<not> xs ! k])
      = foldl crc_step (crc_step r' (xs ! k) XOR 0x864CFB) post"
    by (simp add: upd r'_def crc_step_flip)
  also have "\<dots> = foldl crc_step (crc_step r' (xs ! k)) post
      XOR foldl crc_step 0x864CFB (replicate (length post) False)"
    by (rule crc_fold_xor)
  also have "foldl crc_step (crc_step r' (xs ! k)) post = foldl crc_step r xs"
    by (subst (2) xs) (simp add: r'_def)
  finally have "foldl crc_step r (xs[k := \<not> xs ! k])
      = foldl crc_step r xs XOR foldl crc_step 0x864CFB (replicate (length post) False)" .
  moreover have "foldl crc_step 0x864CFB (replicate (length post) False) \<noteq> 0"
    by (rule crc_zero_input_nonzero) simp
  ultimately show ?thesis by (metis bit.xor_left_self xor_self_eq)
qed


lemma nth_concat_uniform:
  "\<forall>x \<in> set xss. length x = n \<Longrightarrow> p < n * length xss
     \<Longrightarrow> concat xss ! p = xss ! (p div n) ! (p mod n)"
proof (induction xss arbitrary: p)
  case Nil
  then show ?case by simp
next
  case (Cons xs xss)
  have n: "0 < n" using Cons.prems(2) by (cases n) simp_all
  show ?case
  proof (cases "p < n")
    case True
    then show ?thesis using Cons.prems by (simp add: nth_append)
  next
    case False
    then have "p - n < n * length xss" using Cons.prems(2) by simp
    moreover have "\<forall>x \<in> set xss. length x = n" using Cons.prems(1) by simp
    ultimately have "concat xss ! (p - n) = xss ! ((p - n) div n) ! ((p - n) mod n)"
      by (rule Cons.IH [rotated])
    moreover have "p div n = Suc ((p - n) div n)" using False n
      by (simp add: le_div_geq)
    moreover have "p mod n = (p - n) mod n" using False by (simp add: le_mod_geq)
    ultimately show ?thesis using False Cons.prems(1) by (simp add: nth_append)
  qed
qed

lemma bitset_nth: "j < n \<Longrightarrow> bitset n v ! j = bit v (n - 1 - j)"
  by (simp add: bitset_def rev_nth)

lemma length_binary_data_to_bin [simp]: "length (binary_data_to_bin f) = 8 * length f"
  by (induction f) (simp_all add: binary_data_to_bin_def)

lemma binary_data_to_bin_nth:
  assumes "p < 8 * length f"
  shows "binary_data_to_bin f ! p = bit (f ! (p div 8)) (7 - p mod 8)"
proof -
  have "binary_data_to_bin f ! p = map (\<lambda>val. bitset 8 (uint val)) f ! (p div 8) ! (p mod 8)"
    unfolding binary_data_to_bin_def using assms
    by (intro nth_concat_uniform) simp_all
  also have "\<dots> = bitset 8 (uint (f ! (p div 8))) ! (p mod 8)"
    using assms by simp
  also have "\<dots> = bit (f ! (p div 8)) (7 - p mod 8)"
    by (auto simp add: bitset_nth bit_uint_iff)
  finally show ?thesis .
qed

lemma flip_frame_bit_bits:
  assumes "k < 8 * length f"
  shows "binary_data_to_bin (flip_frame_bit k f)
       = (binary_data_to_bin f)[k := \<not> binary_data_to_bin f ! k]"
proof (rule nth_equalityI)
  show "length (binary_data_to_bin (flip_frame_bit k f))
      = length ((binary_data_to_bin f)[k := \<not> binary_data_to_bin f ! k])"
    by (simp add: flip_frame_bit_def)
next
  fix p assume "p < length (binary_data_to_bin (flip_frame_bit k f))"
  then have p: "p < 8 * length f" by (simp add: flip_frame_bit_def)
  define i where "i = k div 8"
  define j where "j = 7 - k mod 8"
  define i' where "i' = p div 8"
  define j' where "j' = 7 - p mod 8"
  define w where "w = f ! i"
  have l: "length (flip_frame_bit k f) = length f" by (simp add: flip_frame_bit_def)
  have kd: "i < length f" unfolding i_def using assms by (simp add: div_less_iff_less_mult mult.commute)
  have j8: "j < 8" "j' < 8" by (simp_all add: j_def j'_def)
  have pk: "(p = k) = (i' = i \<and> j' = j)"
  proof -
    have "p mod 8 < 8" "k mod 8 < 8" by simp_all
    then have "(j' = j) = (p mod 8 = k mod 8)" unfolding j_def j'_def by linarith
    moreover have "(p = k) = (p div 8 = k div 8 \<and> p mod 8 = k mod 8)"
      by (metis mult_div_mod_eq)
    ultimately show ?thesis by (simp add: i_def i'_def)
  qed
  have Bp: "binary_data_to_bin f ! p = bit (f ! i') j'"
    unfolding i'_def j'_def by (rule binary_data_to_bin_nth [OF p])
  have Bk: "binary_data_to_bin f ! k = bit w j"
    unfolding w_def i_def j_def by (rule binary_data_to_bin_nth [OF assms])
  have "p < 8 * length (flip_frame_bit k f)" using p by (simp only: l)
  then have lhs: "binary_data_to_bin (flip_frame_bit k f) ! p = bit (flip_frame_bit k f ! i') j'"
    unfolding i'_def j'_def by (rule binary_data_to_bin_nth)
  have fl: "flip_frame_bit k f = f[i := w XOR push_bit j 1]"
    by (simp only: flip_frame_bit_def i_def j_def w_def)
  have mask: "bit ((2 :: byte) ^ j) j' = (j' = j)"
    using j8 by (auto simp add: bit_exp_iff possible_bit_word)
  have kl: "k < length (binary_data_to_bin f)" using assms by simp
  have rhs: "(binary_data_to_bin f)[k := \<not> binary_data_to_bin f ! k] ! p
      = (if p = k then \<not> bit w j else bit (f ! i') j')"
    using kl by (auto simp add: nth_list_update Bp Bk)
  show "binary_data_to_bin (flip_frame_bit k f) ! p
      = (binary_data_to_bin f)[k := \<not> binary_data_to_bin f ! k] ! p"
  proof (cases "i' = i")
    case True
    have "flip_frame_bit k f ! i' = w XOR push_bit j 1"
      unfolding fl True by (rule nth_list_update_eq [OF kd])
    then show ?thesis
      unfolding lhs rhs pk by (simp add: bit_xor_iff mask True w_def)
  next
    case False
    then have "flip_frame_bit k f ! i' = f ! i'"
      unfolding fl by simp
    then show ?thesis
      unfolding lhs rhs pk using False by simp
  qed
qed

lemma check_CRC_bits:
  assumes "binary_data_to_bin frame = m @ c" and "length c = 24" and "length m mod 8 = 0"
  shows "check_CRC frame = Inr (c = bitset 24 (uint (foldl crc_step 0 m)))"
  using assms
  by (simp add: check_CRC_def Let_def bitset_of_string_def process_bytes_block_bytes)


text \<open>
  Claim C5 (checksum sensitivity). Every frame returned by \<^const>\<open>build_message\<close> passes
  \<^const>\<open>check_CRC\<close>, and inverting any one bit ahead of the trailing 24 CRC bits makes
  \<^const>\<open>check_CRC\<close> return false.
\<close>

theorem check_CRC_sensitivity:
  assumes "build_message data = Inr frame"
  shows "check_CRC frame = Inr True
       \<and> (\<forall>k < 8 * (length frame - 3). check_CRC (flip_frame_bit k frame) = Inr False)"
proof -
  define m where "m = frame_header data @ data @ frame_padding data"
  define c where "c = bitset 24 (uint (foldl crc_step 0 m))"
  have bits: "binary_data_to_bin frame = m @ c"
    and len: "length frame = (24 + length data + length (frame_padding data)) div 8 + 3"
    using build_message_frame [of data] assms by (simp_all add: m_def c_def)
  have m8: "length m mod 8 = 0"
    using padded_length [of data] by (simp add: m_def add.assoc) presburger
  have lc: "length c = 24" by (simp add: c_def)
  have lm: "length m = 8 * (length frame - 3)"
    using m8 by (simp add: len m_def add.assoc) presburger
  have "check_CRC frame = Inr True"
    using check_CRC_bits [OF bits lc m8] by (simp add: c_def)
  moreover have "check_CRC (flip_frame_bit k frame) = Inr False" if k: "k < 8 * (length frame - 3)" for k
  proof -
    have kf: "k < 8 * length frame" using k by simp
    have km: "k < length m" using k lm by simp
    have "binary_data_to_bin (flip_frame_bit k frame) = (m @ c)[k := \<not> (m @ c) ! k]"
      using flip_frame_bit_bits [OF kf] by (simp add: bits)
    also have "\<dots> = m[k := \<not> m ! k] @ c"
      using km by (simp add: list_update_append nth_append)
    finally have b': "binary_data_to_bin (flip_frame_bit k frame) = m[k := \<not> m ! k] @ c" .
    have "check_CRC (flip_frame_bit k frame)
        = Inr (c = bitset 24 (uint (foldl crc_step 0 (m[k := \<not> m ! k]))))"
      using m8 by (intro check_CRC_bits [OF b' lc]) simp
    moreover have "foldl crc_step 0 (m[k := \<not> m ! k]) \<noteq> foldl crc_step 0 m"
      by (rule crc_single_flip [OF km])
    ultimately show ?thesis by (simp add: c_def bitset_uint_inj)
  qed
  ultimately show ?thesis by blast
qed

theorem check_CRC_sensitivity_witness:
  "build_message [True] = Inr [0xD3, 0x00, 0x01, 0x80, 0x39, 0x5F, 0x29]
   \<and> check_CRC [0xD3, 0x00, 0x01, 0x80, 0x39, 0x5F, 0x29] = Inr True
   \<and> (5 :: nat) < 8 * (length [0xD3, 0x00, 0x01, 0x80, 0x39, 0x5F, 0x29 :: byte] - 3)
   \<and> check_CRC (flip_frame_bit 5 [0xD3, 0x00, 0x01, 0x80, 0x39, 0x5F, 0x29]) = Inr False"
  using check_CRC_sensitivity [OF build_message_one_bit] build_message_one_bit by simp

section \<open>The decoders on a failed check and on a short message\<close>

text \<open>On a message of at least three bytes whose checksum does not match, every decoder
  returns status 1 and its outputs unchanged.\<close>

lemma read_MT1005_bad_CRC:
  "check_CRC message = Inr False \<Longrightarrow> read_MT1005 message out = Inr (1, out)"
  by (simp add: read_MT1005_def Let_def)

lemma read_MT1019_bad_CRC:
  "check_CRC message = Inr False \<Longrightarrow> read_MT1019 lsb message eph = Inr (1, eph)"
  by (simp add: read_MT1019_def Let_def)

lemma read_MT1020_bad_CRC:
  "check_CRC message = Inr False \<Longrightarrow> read_MT1020 c message eph utc = Inr (1, eph, utc)"
  by (simp add: read_MT1020_def Let_def)

lemma read_MT1045_bad_CRC:
  "check_CRC message = Inr False \<Longrightarrow> read_MT1045 lsb message eph = Inr (1, eph)"
  by (simp add: read_MT1045_def Let_def)

text \<open>A decoder that returns a status returns 0 or 1, and with 1 the outputs are unchanged.\<close>

lemma read_MT1005_status:
  "read_MT1005 message out = Inr (status, out') \<Longrightarrow> status = 0 \<or> status = 1 \<and> out' = out"
  by (auto simp add: read_MT1005_def Let_def split: if_splits)

lemma read_MT1019_status:
  "read_MT1019 lsb message eph = Inr (status, eph') \<Longrightarrow> status = 0 \<or> status = 1 \<and> eph' = eph"
  by (auto simp add: read_MT1019_def Let_def split: if_splits)

lemma read_MT1020_status:
  "read_MT1020 c message eph utc = Inr (status, eph', utc')
    \<Longrightarrow> status = 0 \<or> status = 1 \<and> eph' = eph \<and> utc' = utc"
  by (auto simp add: read_MT1020_def Let_def split: if_splits)

lemma read_MT1045_status:
  "read_MT1045 lsb message eph = Inr (status, eph') \<Longrightarrow> status = 0 \<or> status = 1 \<and> eph' = eph"
  by (auto simp add: read_MT1045_def Let_def split: if_splits)

text \<open>A message of fewer than three bytes has fewer than 24 digits, and the checksum test
  throws before it compares anything.\<close>

lemma check_CRC_short: "length message < 3 \<Longrightarrow> check_CRC message = Inl OutOfRange"
  by (simp add: check_CRC_def Let_def)

text \<open>Claim C9. Every decoder is to return a non-zero status, with its outputs untouched,
  when the checksum fails, and never to throw. On the empty message, and on the two bytes
  \<open>0xD3 0x00\<close> of a frame cut after its preamble, none of the four decoders returns a status:
  the \<^verbatim>\<open>substr\<close> of \<^verbatim>\<open>check_CRC\<close> throws \<^verbatim>\<open>std::out_of_range\<close>, which no decoder catches.\<close>

theorem decoders_throw_on_short_message:
  "read_MT1005 [] out = Inl OutOfRange \<and> read_MT1019 gps_lsbs [] eph = Inl OutOfRange
   \<and> read_MT1020 c [] glo_eph utc = Inl OutOfRange \<and> read_MT1045 gal_lsbs [] gal_eph = Inl OutOfRange
   \<and> read_MT1005 [0xD3, 0x00] out = Inl OutOfRange
   \<and> read_MT1019 gps_lsbs [0xD3, 0x00] eph = Inl OutOfRange
   \<and> read_MT1020 c [0xD3, 0x00] glo_eph utc = Inl OutOfRange
   \<and> read_MT1045 gal_lsbs [0xD3, 0x00] gal_eph = Inl OutOfRange"
  by (simp add: read_MT1005_def read_MT1019_def read_MT1020_def read_MT1045_def check_CRC_def
      binary_data_to_bin_def Let_def)

section \<open>The round trip of the GLONASS ephemeris\<close>

text \<open>Claim C1. Decoding an encoded ephemeris is to return status 0 and the value of every
  field that the decoder reads back. The frame that \<^verbatim>\<open>print_MT1020\<close> builds for
  \<open>glonass_eph_example\<close> is decoded, into fresh records, with status 0 and with every field
  as it was encoded except the velocity \<^verbatim>\<open>d_VXn\<close>: one unit of the field, \<open>1 / 2 ^ 20\<close>, goes in
  and \<open>- (1 / 2 ^ 20)\<close> comes out. \<^verbatim>\<open>set_DF111\<close> writes the sign bit 0 for a value that is not
  negative, and \<^verbatim>\<open>bin_to_sint\<close> reads the sign bit 0 as negative.\<close>

theorem MT1020_round_trip_negates:
  "print_MT1020 two_powers glonass_eph_example glonass_utc_zero = Inr MT1020_example_frame
   \<and> read_MT1020 two_powers MT1020_example_frame glonass_eph_zero glonass_utc_zero
       = Inr (0, glonass_eph_example\<lparr>d_VXn := - (1 / 2 ^ 20)\<rparr>, glonass_utc_zero)"
  by code_simp

section \<open>The time of epoch of the GLONASS ephemeris\<close>

lemma bin_to_sint_Nil: "bin_to_sint [] = Inl OutOfRange"
  by (simp add: bin_to_sint_def substr_def)

text \<open>One statement of the decoder on a state: it throws when the index is beyond the end
  of the message, and for a sign-magnitude field also when the index is at the end, where
  the field is the empty string.\<close>

lemma read_field_in_eph:
  "read_field mb n (in_eph f) (i, e, u) =
     (if length mb < i then Inl OutOfRange else Inr (i + n, f (take n (drop i mb)) e, u))"
  by (simp add: read_field_def substr_def in_eph_def)

lemma read_field_in_utc:
  "read_field mb n (in_utc f) (i, e, u) =
     (if length mb < i then Inl OutOfRange else Inr (i + n, e, f (take n (drop i mb)) u))"
  by (simp add: read_field_def substr_def in_utc_def)

lemma read_field_in_eph_sint:
  assumes "0 < n" and "n \<le> 32"
  shows "read_field mb n (in_eph_sint f) (i, e, u) =
     (if length mb \<le> i then Inl OutOfRange
      else Inr (i + n, f (projr (bin_to_sint (take n (drop i mb)))) e, u))"
proof (cases "length mb \<le> i")
  case True
  then show ?thesis by (simp add: read_field_def substr_def in_eph_sint_def bin_to_sint_Nil)
next
  case False
  then have "take n (drop i mb) \<noteq> []" using assms(1) by simp
  moreover have "length (take n (drop i mb)) \<le> 32" using assms(2) by simp
  ultimately have "bin_to_sint (take n (drop i mb)) =
      Inr ((if hd (take n (drop i mb)) then 1 else - 1) * bin_val (tl (take n (drop i mb))))"
    by (rule bin_to_sint_value)
  then show ?thesis using False by (simp add: read_field_def substr_def in_eph_sint_def)
qed

lemma read_field_in_utc_sint:
  assumes "0 < n" and "n \<le> 32"
  shows "read_field mb n (in_utc_sint f) (i, e, u) =
     (if length mb \<le> i then Inl OutOfRange
      else Inr (i + n, e, f (projr (bin_to_sint (take n (drop i mb)))) u))"
proof (cases "length mb \<le> i")
  case True
  then show ?thesis by (simp add: read_field_def substr_def in_utc_sint_def bin_to_sint_Nil)
next
  case False
  then have "take n (drop i mb) \<noteq> []" using assms(1) by simp
  moreover have "length (take n (drop i mb)) \<le> 32" using assms(2) by simp
  ultimately have "bin_to_sint (take n (drop i mb)) =
      Inr ((if hd (take n (drop i mb)) then 1 else - 1) * bin_val (tl (take n (drop i mb))))"
    by (rule bin_to_sint_value)
  then show ?thesis using False by (simp add: read_field_def substr_def in_utc_sint_def)
qed

text \<open>The assignments of \<^verbatim>\<open>Rtcm::read_MT1020\<close> in closed form. They complete exactly
  when the last field begins inside the message; every field of the ephemeris but
  \<^verbatim>\<open>d_l5th_n\<close> is then written, and only \<^verbatim>\<open>d_t_k\<close> from its former value.\<close>

lemma read_MT1020_fields_run:
  "run_readers (read_MT1020_fields c mb) (i, e, u) =
     (if i + 267 \<le> length mb
      then Inr (i + 269,
        e\<lparr>i_satellite_slot_number := bin_to_uint (take 6 (drop i mb)),
          i_satellite_freq_channel := cpp_trunc (fl64 (of_int (bin_to_uint (take 5 (drop (i + 6) mb))) - 7)),
          d_P_1 := (if bin_to_uint (take 2 (drop (i + 13) mb)) = 0 then 0 else of_int (((bin_to_uint (take 2 (drop (i + 13) mb)) + 1) * 15) mod 2 ^ 32)),
          d_t_k := fl64 (fl64 (fl64 (d_t_k e + fl64 (of_int (bin_to_int (take 5 (drop (i + 15) mb))) * 3600)) + fl64 (of_int (bin_to_int (take 6 (drop (i + 20) mb))) * 60)) + fl64 (of_int (bin_to_int (take 1 (drop (i + 26) mb))) * 30)),
          d_B_n := of_int (bin_to_uint (take 1 (drop (i + 27) mb))),
          d_P_2 := (bin_to_uint (take 1 (drop (i + 28) mb)) \<noteq> 0),
          d_t_b := fl64 (fl64 (of_int (bin_to_uint (take 7 (drop (i + 29) mb))) * 15) * 60),
          d_VXn := fl64 (of_int (projr (bin_to_sint (take 24 (drop (i + 36) mb)))) * TWO_N20 c),
          d_Xn := fl64 (of_int (projr (bin_to_sint (take 27 (drop (i + 60) mb)))) * TWO_N11 c),
          d_AXn := fl64 (of_int (projr (bin_to_sint (take 5 (drop (i + 87) mb)))) * TWO_N30 c),
          d_VYn := fl64 (of_int (projr (bin_to_sint (take 24 (drop (i + 92) mb)))) * TWO_N20 c),
          d_Yn := fl64 (of_int (projr (bin_to_sint (take 27 (drop (i + 116) mb)))) * TWO_N11 c),
          d_AYn := fl64 (of_int (projr (bin_to_sint (take 5 (drop (i + 143) mb)))) * TWO_N30 c),
          d_VZn := fl64 (of_int (projr (bin_to_sint (take 24 (drop (i + 148) mb)))) * TWO_N20 c),
          d_Zn := fl64 (of_int (projr (bin_to_sint (take 27 (drop (i + 172) mb)))) * TWO_N11 c),
          d_AZn := fl64 (of_int (projr (bin_to_sint (take 5 (drop (i + 199) mb)))) * TWO_N30 c),
          d_P_3 := (bin_to_uint (take 1 (drop (i + 204) mb)) \<noteq> 0),
          d_gamma_n := fl64 (of_int (projr (bin_to_sint (take 11 (drop (i + 205) mb)))) * TWO_N30 c),
          d_P := of_int (bin_to_uint (take 2 (drop (i + 216) mb))),
          d_l3rd_n := (bin_to_uint (take 1 (drop (i + 218) mb)) \<noteq> 0),
          d_tau_n := fl64 (of_int (projr (bin_to_sint (take 22 (drop (i + 219) mb)))) * TWO_N30 c),
          d_Delta_tau_n := fl64 (of_int (projr (bin_to_sint (take 5 (drop (i + 241) mb)))) * TWO_N30 c),
          d_E_n := of_int (bin_to_uint (take 5 (drop (i + 246) mb))),
          d_P_4 := (bin_to_uint (take 1 (drop (i + 251) mb)) \<noteq> 0),
          d_F_T := of_int (bin_to_uint (take 4 (drop (i + 252) mb))),
          d_N_T := of_int (bin_to_uint (take 11 (drop (i + 256) mb))),
          d_M := of_int (bin_to_uint (take 2 (drop (i + 267) mb)))\<rparr>, u)
      else Inl OutOfRange)"
  by (cases e)
    (simp add: read_MT1020_fields_def read_field_in_eph read_field_in_eph_sint Let_def add_ac)

lemma read_MT1020_additional_fields_run:
  "run_readers (read_MT1020_additional_fields c mb) (i, e, u) =
     (if i + 70 \<le> length mb
      then Inr (i + 71,
        e\<lparr>d_l5th_n := (bin_to_uint (take 1 (drop (i + 70) mb)) \<noteq> 0)\<rparr>,
        u\<lparr>d_N_A := of_int (bin_to_uint (take 11 (drop i mb))),
          d_tau_c := fl64 (of_int (projr (bin_to_sint (take 32 (drop (i + 11) mb)))) * TWO_N31 c),
          d_N_4 := of_int (bin_to_uint (take 5 (drop (i + 43) mb))),
          d_tau_gps := fl64 (of_int (projr (bin_to_sint (take 22 (drop (i + 48) mb)))) * TWO_N30 c)\<rparr>)
      else Inl OutOfRange)"
  by (cases u)
    (simp add: read_MT1020_additional_fields_def read_field_in_eph read_field_in_utc
      read_field_in_utc_sint Let_def add_ac)

text \<open>Claim C10. After a call of \<^verbatim>\<open>Rtcm::read_MT1020\<close> that returns status 0, \<^verbatim>\<open>d_t_k\<close> is
  its value before the call with the decoded hours times 3600, minutes times 60 and half
  minute times 30 added, by the three \<^verbatim>\<open>+=\<close> of the source in binary64; the three parts are
  the digits 51 to 55, 56 to 61 and 62 of the message, read by \<^const>\<open>bin_to_int\<close>. Every
  other decoded field is assigned: for any other records passed in, the call returns
  status 0 as well, and its result differs only in \<^verbatim>\<open>d_t_k\<close>, accumulated on the other former
  value, and, for a message without the additional data, in \<^verbatim>\<open>d_l5th_n\<close> and the UTC model,
  which the decoder then does not touch.\<close>

theorem read_MT1020_accumulates_time:
  assumes "read_MT1020 c message eph utc = Inr (0, eph', utc')"
  shows "let message_bin = binary_data_to_bin message;
             hours = bin_to_int (take 5 (drop 51 message_bin));
             minutes = bin_to_int (take 6 (drop 56 message_bin));
             half_minute = bin_to_int (take 1 (drop 62 message_bin));
             additional = (bin_to_uint (take 1 (drop 305 message_bin)) = 1);
             accumulate = (\<lambda>t. fl64 (fl64 (fl64 (t + fl64 (of_int hours * 3600))
                                 + fl64 (of_int minutes * 60)) + fl64 (of_int half_minute * 30)))
         in d_t_k eph' = accumulate (d_t_k eph)
            \<and> (\<forall>eph2 utc2. read_MT1020 c message eph2 utc2 =
                  Inr (0, eph'\<lparr>d_t_k := accumulate (d_t_k eph2),
                                d_l5th_n := (if additional then d_l5th_n eph' else d_l5th_n eph2)\<rparr>,
                       if additional then utc' else utc2))"
proof -
  define mb where "mb = binary_data_to_bin message"
  define acc where "acc = (\<lambda>t. fl64 (fl64 (fl64 (t
        + fl64 (of_int (bin_to_int (take 5 (drop 51 mb))) * 3600))
        + fl64 (of_int (bin_to_int (take 6 (drop 56 mb))) * 60))
        + fl64 (of_int (bin_to_int (take 1 (drop 62 mb))) * 30)))"
  define additional where "additional = (bin_to_uint (take 1 (drop 305 mb)) = 1)"
  define fields where "fields = run_readers (read_MT1020_fields c mb)"
  define more_fields where "more_fields = run_readers (read_MT1020_additional_fields c mb)"
  define F where "F = (\<lambda>e. fst (snd (projr (fields (36, e, utc)))))"
  define v where "v = (bin_to_uint (take 1 (drop 376 mb)) \<noteq> 0)"
  define H where "H = snd (snd (projr (more_fields (306, eph, utc))))"
  have header: "\<not> isl (check_CRC message) \<and> projr (check_CRC message)
      \<and> \<not> isl (substr mb 14 10) \<and> bin_to_uint (projr (substr mb 14 10)) = 45
      \<and> \<not> isl (substr mb 24 12) \<and> bin_to_uint (projr (substr mb 24 12)) = 1020"
    using assms unfolding mb_def fields_def more_fields_def
    by (simp add: read_MT1020_def Let_def split: if_splits)
  have body: "read_MT1020 c message e u =
      (let result = fields (36, e, u)
       in if isl result then Inl (projl result)
          else let ind = substr mb (fst (projr result)) 1
               in if isl ind then Inl (projl ind)
                  else if bin_to_uint (projr ind) = 1
                       then let extra = more_fields (fst (projr result) + 1, snd (projr result))
                            in if isl extra then Inl (projl extra) else Inr (0, snd (projr extra))
                       else Inr (0, snd (projr result)))" for e u
    using header unfolding mb_def fields_def more_fields_def
    by (simp add: read_MT1020_def Let_def)
  have fields_cases: "fields (36, e, u) = Inl OutOfRange \<or> 303 \<le> length mb" for e u
    unfolding fields_def read_MT1020_fields_run by simp
  have len: "303 \<le> length mb"
    using fields_cases [of eph utc] assms body [of eph utc] by (auto simp add: Let_def)
  have run: "fields (36, e, u) = Inr (305, F e, u)" for e u
    unfolding F_def fields_def read_MT1020_fields_run using len by simp
  have F_time: "d_t_k (F e) = acc (d_t_k e)" for e
    unfolding F_def fields_def read_MT1020_fields_run acc_def using len by simp
  have F_l5th: "d_l5th_n (F e) = d_l5th_n e" for e
    unfolding F_def fields_def read_MT1020_fields_run using len by simp
  have F_other: "F e2 = (F e)\<lparr>d_t_k := acc (d_t_k e2), d_l5th_n := d_l5th_n e2\<rparr>" for e e2
    unfolding F_def fields_def read_MT1020_fields_run acc_def using len
    by (cases e; cases e2) simp
  have more_cases: "more_fields (306, e, u) = Inl OutOfRange
      \<or> 376 \<le> length mb \<and> more_fields (306, e, u) = Inr (377, e\<lparr>d_l5th_n := v\<rparr>, H)" for e u
    unfolding H_def v_def more_fields_def read_MT1020_additional_fields_run
    by (cases u; cases utc) simp
  have len_ind: "305 \<le> length mb"
    using assms body [of eph utc] run [of eph utc]
    by (auto simp add: Let_def substr_def split: if_splits)
  have read: "read_MT1020 c message e u =
      (if additional
       then let extra = more_fields (306, F e, u)
            in if isl extra then Inl (projl extra) else Inr (0, snd (projr extra))
       else Inr (0, F e, u))" for e u
    using len_ind by (simp add: body run substr_def Let_def additional_def)
  have time: "d_t_k eph' = acc (d_t_k eph)"
    using assms more_cases [of "F eph" utc] F_time [of eph]
    by (auto simp add: read Let_def split: if_splits)
  have other: "read_MT1020 c message eph2 utc2 =
      Inr (0, eph'\<lparr>d_t_k := acc (d_t_k eph2),
                   d_l5th_n := (if additional then d_l5th_n eph' else d_l5th_n eph2)\<rparr>,
           if additional then utc' else utc2)" for eph2 utc2
  proof (cases additional)
    case True
    from assms True more_cases [of "F eph" utc]
    have first: "376 \<le> length mb" "eph' = (F eph)\<lparr>d_l5th_n := v\<rparr>" "utc' = H"
      by (auto simp add: read Let_def split: if_splits)
    from first(1) more_cases [of "F eph2" utc2]
    have "more_fields (306, F eph2, utc2) = Inr (377, (F eph2)\<lparr>d_l5th_n := v\<rparr>, H)"
      unfolding more_fields_def read_MT1020_additional_fields_run by auto
    then have "read_MT1020 c message eph2 utc2 = Inr (0, (F eph2)\<lparr>d_l5th_n := v\<rparr>, H)"
      using True by (simp add: read)
    moreover have "(F eph2)\<lparr>d_l5th_n := v\<rparr>
        = eph'\<lparr>d_t_k := acc (d_t_k eph2), d_l5th_n := d_l5th_n eph'\<rparr>"
      unfolding first(2) by (subst F_other [of eph2 eph]) simp
    ultimately show ?thesis using True first(3) by simp
  next
    case False
    from assms False have first: "eph' = F eph" "utc' = utc"
      by (simp_all add: read)
    have "read_MT1020 c message eph2 utc2 = Inr (0, F eph2, utc2)"
      using False by (simp add: read)
    moreover have "F eph2 = eph'\<lparr>d_t_k := acc (d_t_k eph2), d_l5th_n := d_l5th_n eph2\<rparr>"
      unfolding first(1) by (rule F_other)
    ultimately show ?thesis using False by simp
  qed
  show ?thesis
    unfolding Let_def using time other
    unfolding acc_def additional_def mb_def by blast
qed

text \<open>The frame of \<open>glonass_eph_example\<close>, 3 hours 25 minutes, decoded into a record whose
  \<^verbatim>\<open>d_t_k\<close> is 100: the result is 12400.\<close>

theorem read_MT1020_accumulates_time_witness:
  "read_MT1020 two_powers MT1020_example_frame (glonass_eph_zero\<lparr>d_t_k := 100\<rparr>) glonass_utc_zero
     = Inr (0, glonass_eph_example\<lparr>d_t_k := 12400, d_VXn := - (1 / 2 ^ 20)\<rparr>, glonass_utc_zero)
   \<and> (let message_bin = binary_data_to_bin MT1020_example_frame;
            hours = bin_to_int (take 5 (drop 51 message_bin));
            minutes = bin_to_int (take 6 (drop 56 message_bin));
            half_minute = bin_to_int (take 1 (drop 62 message_bin));
            additional = (bin_to_uint (take 1 (drop 305 message_bin)) = 1);
            accumulate = (\<lambda>t. fl64 (fl64 (fl64 (t + fl64 (of_int hours * 3600))
                                + fl64 (of_int minutes * 60)) + fl64 (of_int half_minute * 30)))
        in d_t_k (glonass_eph_example\<lparr>d_t_k := 12400, d_VXn := - (1 / 2 ^ 20)\<rparr>)
             = accumulate (d_t_k (glonass_eph_zero\<lparr>d_t_k := 100\<rparr>))
           \<and> (\<forall>eph2 utc2. read_MT1020 two_powers MT1020_example_frame eph2 utc2 =
                 Inr (0, glonass_eph_example\<lparr>d_t_k := 12400, d_VXn := - (1 / 2 ^ 20)\<rparr>
                           \<lparr>d_t_k := accumulate (d_t_k eph2),
                            d_l5th_n := (if additional
                              then d_l5th_n (glonass_eph_example\<lparr>d_t_k := 12400, d_VXn := - (1 / 2 ^ 20)\<rparr>)
                              else d_l5th_n eph2)\<rparr>,
                      if additional then glonass_utc_zero else utc2)))"
proof -
  have decoded: "read_MT1020 two_powers MT1020_example_frame (glonass_eph_zero\<lparr>d_t_k := 100\<rparr>)
      glonass_utc_zero
    = Inr (0, glonass_eph_example\<lparr>d_t_k := 12400, d_VXn := - (1 / 2 ^ 20)\<rparr>, glonass_utc_zero)"
    by code_simp
  from decoded read_MT1020_accumulates_time [OF decoded] show ?thesis by (rule conjI)
qed

end
